theory Spec2Isabelle
  imports Main "HOL-Library.Sublist"
begin

section \<open>JavaScript strings and the builtins the server uses\<close>

text \<open>
  A JavaScript string is modelled as a \<^typ>\<open>string\<close>: a list of 8-bit characters, read as
  the Latin-1 range of UTF-16 code units, so that \<open>length\<close> is the \<open>.length\<close> of the
  source. Each builtin below is the one the server calls, written out for this range.
\<close>

definition nl :: string where
  "nl = [CHR 0x0A]"

text \<open>\<open>s.includes(t)\<close>: \<open>t\<close> occurs in \<open>s\<close> as a contiguous run.\<close>

fun str_includes :: "string \<Rightarrow> string \<Rightarrow> bool" where
  "str_includes [] t = (t = [])"
| "str_includes (c # cs) t = (prefix t (c # cs) \<or> str_includes cs t)"

text \<open>\<open>s.split('\n')\<close>: never empty; the empty string splits into one empty line.\<close>

fun split_nl :: "string \<Rightarrow> string list" where
  "split_nl [] = [[]]"
| "split_nl (c # cs) =
     (if c = CHR 0x0A then [] # split_nl cs
      else (case split_nl cs of l # ls \<Rightarrow> (c # l) # ls | [] \<Rightarrow> [[c]]))"

text \<open>\<open>ls.join('\n')\<close>.\<close>

fun join_nl :: "string list \<Rightarrow> string" where
  "join_nl [] = []"
| "join_nl [l] = l"
| "join_nl (l # ls) = l @ CHR 0x0A # join_nl ls"

text \<open>The regular-expression classes \<open>\s\<close>, \<open>\d\<close>, \<open>\w\<close>, and the line terminators that
  \<open>.\<close> does not match.\<close>

definition isSpace :: "char \<Rightarrow> bool" where
  "isSpace c = (c \<in> set [CHR 0x09, CHR 0x0A, CHR 0x0B, CHR 0x0C, CHR 0x0D, CHR 0x20, CHR 0xA0])"

definition isDigit :: "char \<Rightarrow> bool" where
  "isDigit c = (c \<in> set ''0123456789'')"

definition isWord :: "char \<Rightarrow> bool" where
  "isWord c = (c \<in> set ''ABCDEFGHIJKLMNOPQRSTUVWXYZabcdefghijklmnopqrstuvwxyz0123456789_'')"

definition isLineTerminator :: "char \<Rightarrow> bool" where
  "isLineTerminator c = (c = CHR 0x0A \<or> c = CHR 0x0D)"

text \<open>\<open>s.toLowerCase()\<close>.\<close>

definition lowerChar :: "char \<Rightarrow> char" where
  "lowerChar c =
     (let n = (of_char c :: nat)
      in if (65 \<le> n \<and> n \<le> 90) \<or> (192 \<le> n \<and> n \<le> 222 \<and> n \<noteq> 215)
         then char_of (n + 32) else c)"

definition toLowerCase :: "string \<Rightarrow> string" where
  "toLowerCase s = map lowerChar s"

text \<open>\<open>s.trim()\<close>: white space and line terminators go from both ends.\<close>

definition trim :: "string \<Rightarrow> string" where
  "trim s = rev (dropWhile isSpace (rev (dropWhile isSpace s)))"

text \<open>A number in a template literal (\<open>`${Date.now()}`\<close>): its decimal digits.\<close>

definition digitChar :: "nat \<Rightarrow> char" where
  "digitChar d = ''0123456789'' ! (d mod 10)"

function showNat :: "nat \<Rightarrow> string" where
  "showNat n = (if n < 10 then [digitChar n] else showNat (n div 10) @ [digitChar (n mod 10)])"
  by pat_completeness auto
termination
  by (relation "measure id") auto

declare showNat.simps [simp del]

text \<open>\<open>parseInt(ds)\<close> on a run of decimal digits, as the regular expressions capture it.\<close>

definition digitVal :: "char \<Rightarrow> nat" where
  "digitVal c = of_char c - 48"

definition parseInt :: "string \<Rightarrow> int" where
  "parseInt ds = int (foldl (\<lambda>a c. 10 * a + digitVal c) 0 ds)"

text \<open>\<open>s.replace(t, u)\<close> with a string pattern: the first occurrence only.\<close>

fun replaceFirst :: "string \<Rightarrow> string \<Rightarrow> string \<Rightarrow> string" where
  "replaceFirst [] t u = (if t = [] then u else [])"
| "replaceFirst (c # cs) t u =
     (if prefix t (c # cs) then u @ drop (length t) (c # cs) else c # replaceFirst cs t u)"

text \<open>
  The regular expression \<open>/public\s+class\s+(\w+)/\<close>. \<open>matchPublicClass s\<close> is the match
  that starts at the head of \<open>s\<close>: the class name captured and the text after the match.
  The classes \<open>\s\<close> and \<open>\w\<close> are disjoint and no literal starts with white space, so the
  greedy runs are the only way to match.
\<close>

definition matchPublicClass :: "string \<Rightarrow> (string \<times> string) option" where
  "matchPublicClass s =
     (if prefix ''public'' s then
        (let r1 = drop 6 s; r2 = dropWhile isSpace r1 in
         if takeWhile isSpace r1 \<noteq> [] \<and> prefix ''class'' r2 then
           (let r3 = drop 5 r2; r4 = dropWhile isSpace r3 in
            if takeWhile isSpace r3 \<noteq> [] \<and> takeWhile isWord r4 \<noteq> []
            then Some (takeWhile isWord r4, dropWhile isWord r4) else None)
         else None)
      else None)"

text \<open>\<open>code.match(/public\s+class\s+(\w+)/)\<close>: group 1 of the leftmost match.\<close>

fun findPublicClass :: "string \<Rightarrow> string option" where
  "findPublicClass [] = None"
| "findPublicClass (c # cs) =
     (case matchPublicClass (c # cs) of
        Some (w, rest) \<Rightarrow> Some w
      | None \<Rightarrow> findPublicClass cs)"

text \<open>\<open>s.replace(/public\s+class\s+(\w+)/, 'class $1')\<close>: the leftmost match is replaced.\<close>

fun replacePublicClass :: "string \<Rightarrow> string" where
  "replacePublicClass [] = []"
| "replacePublicClass (c # cs) =
     (case matchPublicClass (c # cs) of
        Some (w, rest) \<Rightarrow> ''class '' @ w @ rest
      | None \<Rightarrow> c # replacePublicClass cs)"

section \<open>Language normalisation\<close>

definition LANGUAGE_ALIASES :: "(string \<times> string) list" where
  "LANGUAGE_ALIASES =
     [(''javascript'', ''javascript''), (''js'', ''javascript''), (''node'', ''javascript''),
      (''nodejs'', ''javascript''), (''ecmascript'', ''javascript''),
      (''typescript'', ''javascript''), (''ts'', ''javascript''),
      (''python'', ''python''), (''py'', ''python''), (''python3'', ''python''),
      (''py3'', ''python''),
      (''java'', ''java''), (''javase'', ''java''),
      (''cpp'', ''cpp''), (''c++'', ''cpp''), (''cplusplus'', ''cpp''), (''c++11'', ''cpp''),
      (''c++14'', ''cpp''), (''c++17'', ''cpp''), (''c++20'', ''cpp''),
      (''c'', ''c''), (''ansi-c'', ''c''), (''c11'', ''c''), (''c17'', ''c'')]"

text \<open>
  What a property read on the table object yields. The table is an object literal, so a
  key that is not its own is looked up on \<open>Object.prototype\<close>; the only lower-case names
  there are \<open>constructor\<close> and \<open>__proto__\<close>, and both hold an object, not a string.
\<close>

datatype js_value = Undefined | Null | Str string | Inherited string

fun truthy :: "js_value \<Rightarrow> bool" where
  "truthy Undefined = False"
| "truthy Null = False"
| "truthy (Str s) = (s \<noteq> [])"
| "truthy (Inherited k) = True"

definition aliasLookup :: "string \<Rightarrow> js_value" where
  "aliasLookup k =
     (case map_of LANGUAGE_ALIASES k of
        Some v \<Rightarrow> Str v
      | None \<Rightarrow> if k \<in> set [''constructor'', ''__proto__''] then Inherited k else Undefined)"

text \<open>\<open>LANGUAGE_ALIASES[lang.toLowerCase()] || null\<close>.\<close>

definition normalizeLanguage :: "string \<Rightarrow> js_value" where
  "normalizeLanguage lang =
     (let v = aliasLookup (toLowerCase lang) in if truthy v then v else Null)"

section \<open>Wrapping a snippet (server.js)\<close>

definition cppIncludes :: string where
  "cppIncludes = concat (map (\<lambda>l. l @ nl)
     [''#include <iostream>'', ''#include <vector>'', ''#include <string>'',
      ''#include <map>'', ''#include <set>'', ''#include <algorithm>'',
      ''#include <concepts>'', ''#include <type_traits>'', ''#include <memory>'',
      ''#include <functional>'', ''#include <ranges>'', ''#include <span>'',
      ''#include <numeric>'', ''#include <iterator>'', ''#include <optional>'',
      ''#include <tuple>'', ''#include <utility>'', ''#include <execution>'',
      ''#include <compare>'', ''#include <stdexcept>'', ''#include <cstdlib>'',
      ''#include <cstring>'', ''#include <cmath>'', ''using namespace std;''])"

definition javaImports :: string where
  "javaImports = concat (map (\<lambda>l. l @ nl)
     [''import java.util.*;'', ''import java.util.stream.*;'',
      ''import java.util.function.*;'', ''import java.time.*;'', ''import java.math.*;'',
      ''import java.text.*;'', ''import java.security.*;'',
      ''import java.util.concurrent.*;'', ''import java.util.regex.*;'',
      ''import java.io.*;'', ''import static java.util.stream.Collectors.*;''])"

definition pythonImports :: string where
  "pythonImports = concat (map (\<lambda>l. l @ nl)
     [''from typing import List, Optional'', ''import math'', ''import collections'',
      ''import heapq''])"

text \<open>The indentation of the first line is cut from every line.\<close>

definition unindent :: "string \<Rightarrow> string" where
  "unindent code =
     (let lines = split_nl code;
          indentation = length (takeWhile isSpace (hd lines))
      in join_nl (map (drop indentation) lines))"

text \<open>The name of the class synthesized around a Java fragment; \<open>now\<close> is what
  \<open>Date.now()\<close> returned.\<close>

definition solutionClassName :: "nat \<Rightarrow> string" where
  "solutionClassName now = ''Solution_'' @ showNat now"

text \<open>\<open>wrapCodeSnippet(code, language)\<close>; \<open>now\<close> is the reading of \<open>Date.now()\<close> the Java
  branch takes when the code holds no \<open>class\<close>.\<close>

definition wrapCodeSnippet :: "nat \<Rightarrow> string \<Rightarrow> string \<Rightarrow> string" where
  "wrapCodeSnippet now code language =
     (let unindentedCode = unindent code; l = toLowerCase language in
      if l = ''cpp'' then
        (if str_includes code ''template'' \<or> str_includes code ''concept'' then
           cppIncludes @ nl @ unindentedCode @ nl @ nl
           @ ''// Ensure there's at least one instantiation for templates'' @ nl
           @ ''namespace test_instantiation {'' @ nl
           @ ''    void ensure_instantiation();  // Forward declaration to prevent unused warnings'' @ nl
           @ ''}''
         else if str_includes code ''main('' then cppIncludes @ nl @ unindentedCode
         else cppIncludes @ nl @ ''int main() {'' @ nl @ ''    '' @ unindentedCode @ nl
           @ ''    return 0;'' @ nl @ ''}'')
      else if l = ''java'' then
        (if str_includes code ''class'' then
           javaImports @ nl @ replacePublicClass unindentedCode
         else
           javaImports @ nl @ ''class '' @ solutionClassName now @ '' {'' @ nl
           @ ''    public static void main(String[] args) {'' @ nl
           @ ''        '' @ unindentedCode @ nl
           @ ''    }'' @ nl @ ''}'')
      else if l = ''python'' then pythonImports @ nl @ unindentedCode
      else if l = ''c'' then
        (if str_includes code ''main('' then unindentedCode
         else ''#include <stdio.h>'' @ nl @ ''#include <stdlib.h>'' @ nl
           @ ''#include <string.h>'' @ nl @ nl @ ''int main() {'' @ nl
           @ ''    '' @ unindentedCode @ nl @ ''    return 0;'' @ nl @ ''}'')
      else code)"

text \<open>
  The wrapped text in three parts: what the wrapper puts before the user's code, the
  user's code as it is embedded, and what follows it. The parts are read off the template
  literals of \<open>wrapCodeSnippet\<close>, and \<open>wrapCodeSnippet_parts\<close> below proves that they add up
  to its result. \<open>injectedLines\<close> counts the line breaks of the first part: the first line
  of the user's code is line \<open>injectedLines + 1\<close> of the wrapped text.
\<close>

definition synthesizesClass :: "string \<Rightarrow> string \<Rightarrow> bool" where
  "synthesizesClass code language =
     (toLowerCase language = ''java'' \<and> \<not> str_includes code ''class'')"

definition wrapPrefix :: "nat \<Rightarrow> string \<Rightarrow> string \<Rightarrow> string" where
  "wrapPrefix now code language =
     (let l = toLowerCase language in
      if l = ''cpp'' then
        (if str_includes code ''template'' \<or> str_includes code ''concept'' then cppIncludes @ nl
         else if str_includes code ''main('' then cppIncludes @ nl
         else cppIncludes @ nl @ ''int main() {'' @ nl @ ''    '')
      else if l = ''java'' then
        (if str_includes code ''class'' then javaImports @ nl
         else javaImports @ nl @ ''class '' @ solutionClassName now @ '' {'' @ nl
           @ ''    public static void main(String[] args) {'' @ nl @ ''        '')
      else if l = ''python'' then pythonImports @ nl
      else if l = ''c'' then
        (if str_includes code ''main('' then []
         else ''#include <stdio.h>'' @ nl @ ''#include <stdlib.h>'' @ nl
           @ ''#include <string.h>'' @ nl @ nl @ ''int main() {'' @ nl @ ''    '')
      else [])"

definition wrapBody :: "string \<Rightarrow> string \<Rightarrow> string" where
  "wrapBody code language =
     (let l = toLowerCase language in
      if l = ''java'' \<and> str_includes code ''class'' then replacePublicClass (unindent code)
      else if l \<in> set [''cpp'', ''java'', ''python'', ''c''] then unindent code
      else code)"

definition wrapSuffix :: "string \<Rightarrow> string \<Rightarrow> string" where
  "wrapSuffix code language =
     (let l = toLowerCase language in
      if l = ''cpp'' then
        (if str_includes code ''template'' \<or> str_includes code ''concept'' then
           nl @ nl @ ''// Ensure there's at least one instantiation for templates'' @ nl
           @ ''namespace test_instantiation {'' @ nl
           @ ''    void ensure_instantiation();  // Forward declaration to prevent unused warnings'' @ nl
           @ ''}''
         else if str_includes code ''main('' then []
         else nl @ ''    return 0;'' @ nl @ ''}'')
      else if l = ''java'' then
        (if str_includes code ''class'' then [] else nl @ ''    }'' @ nl @ ''}'')
      else if l = ''python'' then []
      else if l = ''c'' then
        (if str_includes code ''main('' then [] else nl @ ''    return 0;'' @ nl @ ''}'')
      else [])"

definition injectedLines :: "nat \<Rightarrow> string \<Rightarrow> string \<Rightarrow> nat" where
  "injectedLines now code language =
     length (filter (\<lambda>c. c = CHR 0x0A) (wrapPrefix now code language))"

section \<open>The regular expressions of the checkers\<close>

text \<open>
  \<open>/:(\d+):/\<close> (the Java checker): group 1 of the leftmost match. A greedy run of digits
  cannot give back a digit to stand before the closing colon, so the run is taken whole.
\<close>

definition matchColonNum :: "string \<Rightarrow> string option" where
  "matchColonNum s =
     (case s of
        [] \<Rightarrow> None
      | c # r \<Rightarrow>
          if c = CHR '':'' \<and> takeWhile isDigit r \<noteq> [] \<and> prefix '':'' (dropWhile isDigit r)
          then Some (takeWhile isDigit r) else None)"

fun findColonNum :: "string \<Rightarrow> string option" where
  "findColonNum [] = None"
| "findColonNum (c # cs) =
     (case matchColonNum (c # cs) of Some d \<Rightarrow> Some d | None \<Rightarrow> findColonNum cs)"

text \<open>
  \<open>/File ".*", line (\d+)/\<close> (the Python checker). \<open>matchLineTail\<close> is the part after
  \<open>.*\<close>; \<open>matchDotStar\<close> is the greedy \<open>.*\<close>, which takes as many characters other
  than line terminators as it can and gives them back one by one until the tail matches.
\<close>

definition matchLineTail :: "string \<Rightarrow> string option" where
  "matchLineTail s =
     (if prefix ([CHR 0x22] @ '', line '') s \<and> takeWhile isDigit (drop 8 s) \<noteq> []
      then Some (takeWhile isDigit (drop 8 s)) else None)"

fun matchDotStar :: "string \<Rightarrow> string option" where
  "matchDotStar [] = matchLineTail []"
| "matchDotStar (c # cs) =
     (if isLineTerminator c then matchLineTail (c # cs)
      else (case matchDotStar cs of Some d \<Rightarrow> Some d | None \<Rightarrow> matchLineTail (c # cs)))"

definition matchFileLine :: "string \<Rightarrow> string option" where
  "matchFileLine s =
     (if prefix (''File '' @ [CHR 0x22]) s then matchDotStar (drop 6 s) else None)"

fun findFileLine :: "string \<Rightarrow> string option" where
  "findFileLine [] = None"
| "findFileLine (c # cs) =
     (case matchFileLine (c # cs) of Some d \<Rightarrow> Some d | None \<Rightarrow> findFileLine cs)"

text \<open>
  \<open>/(.*?):(\d+):(\d+):\s*(warning|error):\s*(.*)/\<close> (the C and C++ checkers). The lazy
  group 1 (the file name, which no caller reads) lets the rest start at the leftmost
  position where it matches; \<open>matchDiagTail\<close> is that rest, giving groups 2 to 5.
\<close>

definition matchSeverity :: "string \<Rightarrow> (string \<times> string) option" where
  "matchSeverity s =
     (if prefix ''warning'' s then Some (''warning'', drop 7 s)
      else if prefix ''error'' s then Some (''error'', drop 5 s)
      else None)"

definition matchDiagTail :: "string \<Rightarrow> (string \<times> string \<times> string \<times> string) option" where
  "matchDiagTail s =
     (case s of
        [] \<Rightarrow> None
      | c # r1 \<Rightarrow>
          (let lineNum = takeWhile isDigit r1; r2 = dropWhile isDigit r1;
               col = takeWhile isDigit (drop 1 r2); r3 = dropWhile isDigit (drop 1 r2)
           in if c = CHR '':'' \<and> lineNum \<noteq> [] \<and> prefix '':'' r2 \<and> col \<noteq> [] \<and> prefix '':'' r3
              then (case matchSeverity (dropWhile isSpace (drop 1 r3)) of
                      None \<Rightarrow> None
                    | Some (type, r4) \<Rightarrow>
                        if prefix '':'' r4
                        then Some (lineNum, col, type,
                               takeWhile (\<lambda>c. \<not> isLineTerminator c) (dropWhile isSpace (drop 1 r4)))
                        else None)
              else None))"

fun findDiag :: "string \<Rightarrow> (string \<times> string \<times> string \<times> string) option" where
  "findDiag [] = None"
| "findDiag (c # cs) =
     (case matchDiagTail (c # cs) of Some m \<Rightarrow> Some m | None \<Rightarrow> findDiag cs)"

section \<open>The world outside the server\<close>

text \<open>
  The server writes temp files, runs commands and reads the clock. \<open>world\<close> is what a
  request can change: the temp files present (those the server itself wrote), the effects
  so far in order, and how many times the clock was read. \<open>env\<close> is what the request cannot
  decide: where the temp directory is, what each \<open>Date.now()\<close> returns, how a command ends,
  whether a write fails, what the Babel parser and \<open>decodeURIComponent\<close> return.
\<close>

datatype effect = Wrote string | Ran string | Cleaned string

record world =
  files :: "string set"
  trace :: "effect list"
  ticks :: nat

text \<open>How a child process ends: exit status 0 with its stdout and stderr; or an error
  with its message and stderr, and whether the process was killed by \<open>SIGTERM\<close> (what the
  \<open>timeout\<close> option of \<open>exec\<close> sends).\<close>

datatype proc_outcome = Exit0 string string | ExitFail string string bool

record parse_error =
  pe_message :: string
  pe_code :: "string option"
  pe_loc :: "(int \<times> int) option"

datatype parse_outcome = Parsed | ParseError parse_error

datatype source_type = Module | Script

record env =
  tempDir :: string
  date_now :: "nat \<Rightarrow> nat"
  run_cmd :: "world \<Rightarrow> string \<Rightarrow> nat option \<Rightarrow> proc_outcome"
  write_fails :: "world \<Rightarrow> string \<Rightarrow> string option"
  babel_parse :: "string \<Rightarrow> source_type \<Rightarrow> parse_outcome"
  decode_uri :: "string \<Rightarrow> string option"
  DOCKER_JAVA_IMAGE :: string
  DOCKER_PYTHON_IMAGE :: string
  DOCKER_CPP_IMAGE :: string
  DOCKER_C_IMAGE :: string
  EXECUTION_TIMEOUT :: nat
  COMPILE_TIMEOUT :: nat

text \<open>An environment with the defaults of the configuration, a clock that starts at
  1700 and advances by one at each reading, commands that exit with status 0 and print
  nothing, writes that succeed, a parser that accepts, and a \<open>decodeURIComponent\<close> that
  finds nothing to decode.\<close>

definition quietEnv :: env where
  "quietEnv =
     \<lparr>tempDir = ''/app/temp'', date_now = (\<lambda>n. 1700 + n),
      run_cmd = (\<lambda>w cmd t. Exit0 [] []),
      write_fails = (\<lambda>w p. None), babel_parse = (\<lambda>c t. Parsed), decode_uri = Some,
      DOCKER_JAVA_IMAGE = ''openjdk:11'', DOCKER_PYTHON_IMAGE = ''python:3.9-slim'',
      DOCKER_CPP_IMAGE = ''gcc:latest'', DOCKER_C_IMAGE = ''gcc:latest'',
      EXECUTION_TIMEOUT = 10000, COMPILE_TIMEOUT = 15000\<rparr>"

text \<open>An error thrown by \<open>exec\<close>: its message and the \<open>stderr\<close> it carries.\<close>

record exec_error =
  xe_message :: string
  xe_stderr :: string

definition dateNow :: "env \<Rightarrow> world \<Rightarrow> nat \<times> world" where
  "dateNow e w = (date_now e (ticks w), w\<lparr>ticks := Suc (ticks w)\<rparr>)"

definition pathJoin :: "string \<Rightarrow> string \<Rightarrow> string" where
  "pathJoin dir name = dir @ ''/'' @ name"

definition quoted :: "string \<Rightarrow> string" where
  "quoted s = [CHR 0x22] @ s @ [CHR 0x22]"

text \<open>\<open>fs.writeFile\<close>: the error message when it throws.\<close>

definition writeFile :: "env \<Rightarrow> world \<Rightarrow> string \<Rightarrow> string + world" where
  "writeFile e w path =
     (case write_fails e w path of
        Some m \<Rightarrow> Inl m
      | None \<Rightarrow> Inr (w\<lparr>files := insert path (files w), trace := trace w @ [Wrote path]\<rparr>))"

text \<open>\<open>execAsync(cmd)\<close>: the promisified \<open>exec\<close>, with no timeout.\<close>

definition execAsync :: "env \<Rightarrow> world \<Rightarrow> string \<Rightarrow> (exec_error + string \<times> string) \<times> world" where
  "execAsync e w cmd =
     (case run_cmd e w cmd None of
        Exit0 out err \<Rightarrow> Inr (out, err)
      | ExitFail m err killed \<Rightarrow> Inl \<lparr>xe_message = m, xe_stderr = err\<rparr>,
      w\<lparr>trace := trace w @ [Ran cmd]\<rparr>)"

text \<open>\<open>cleanupTempFile(filePath)\<close>: the file is removed when it is there; no error leaves
  the function.\<close>

definition cleanupTempFile :: "world \<Rightarrow> string \<Rightarrow> world" where
  "cleanupTempFile w path = w\<lparr>files := files w - {path}, trace := trace w @ [Cleaned path]\<rparr>"

section \<open>Syntax results\<close>

text \<open>
  The checkers return object literals with different fields; \<open>syntax_result\<close> has every
  field one of them sets, \<open>None\<close> where the object has no such property. An entry of
  \<open>errors\<close> (C and C++) and an entry of \<open>details\<close> (Python and Java) are records of their
  own; the JavaScript checker's \<open>details\<close> is one object (message, type, loc).
\<close>

record error_entry =
  line :: int
  column :: int
  etype :: string
  emessage :: string
  suggestion :: "string option"

record detail_entry =
  dline :: int
  dmessage :: string

datatype details = DetailList "detail_entry list" | DetailObject string string "(int \<times> int) option"

record syntax_result =
  valid :: bool
  message :: "string option"
  error :: "string option"
  rline :: "int option"
  rcolumn :: "int option"
  details :: "details option"
  errors :: "error_entry list option"
  standard :: "string option"
  help_text :: "string option"

definition emptyResult :: "bool \<Rightarrow> syntax_result" where
  "emptyResult v =
     \<lparr>valid = v, message = None, error = None, rline = None, rcolumn = None, details = None,
      errors = None, standard = None, help_text = None\<rparr>"

definition validResult :: syntax_result where
  "validResult = (emptyResult True)\<lparr>message := Some ''Syntax is valid''\<rparr>"

definition sizeError :: syntax_result where
  "sizeError = (emptyResult False)\<lparr>error := Some ''Code size exceeds maximum limit of 1MB''\<rparr>"

definition failResult :: "string \<Rightarrow> syntax_result" where
  "failResult m = (emptyResult False)\<lparr>error := Some m\<rparr>"

section \<open>The checkers of server.js\<close>

text \<open>\<open>checkJavaScriptSyntax\<close>: the parser is tried on the code as a module, then as a
  script. (The outermost \<open>catch\<close> is not reached: both parses stand in a \<open>try\<close> of their
  own.)\<close>

definition checkJavaScriptSyntax :: "env \<Rightarrow> string \<Rightarrow> syntax_result" where
  "checkJavaScriptSyntax e code =
     (if length code > 1000000 then sizeError
      else case babel_parse e code Module of
        Parsed \<Rightarrow> validResult
      | ParseError moduleError \<Rightarrow>
          (case babel_parse e code Script of
             Parsed \<Rightarrow> validResult
           | ParseError scriptError \<Rightarrow>
               (let err = (if pe_code scriptError = Some ''BABEL_PARSER_SYNTAX_ERROR''
                           then scriptError else moduleError);
                    l = (case pe_loc err of Some (l, c) \<Rightarrow> if l = 0 then 1 else l | None \<Rightarrow> 1);
                    c = (case pe_loc err of Some (l, c) \<Rightarrow> c | None \<Rightarrow> 0)
                in (emptyResult False)
                     \<lparr>error := Some (hd (split_nl (pe_message err))),
                      rline := Some l, rcolumn := Some c,
                      details := Some (DetailObject (pe_message err)
                        (case pe_code err of Some k \<Rightarrow> if k = [] then ''SyntaxError'' else k
                         | None \<Rightarrow> ''SyntaxError'')
                        (pe_loc err))\<rparr>)))"

text \<open>The temp file of a checker: \<open>path.join(tempDir, `check_${Date.now()}.ext`)\<close>.\<close>

definition checkFile :: "env \<Rightarrow> nat \<Rightarrow> string \<Rightarrow> string" where
  "checkFile e now ext = pathJoin (tempDir e) (''check_'' @ showNat now @ ext)"

definition pythonDetails :: "string \<Rightarrow> detail_entry list" where
  "pythonDetails stderr =
     List.map_filter
       (\<lambda>l. case findFileLine l of
              Some d \<Rightarrow> Some \<lparr>dline = parseInt d, dmessage = trim l\<rparr>
            | None \<Rightarrow> None)
       (split_nl stderr)"

definition pyCompileCommand :: "string \<Rightarrow> string" where
  "pyCompileCommand tempFile = ''/usr/bin/python3 -m py_compile '' @ quoted tempFile"

definition checkPythonSyntax :: "env \<Rightarrow> world \<Rightarrow> string \<Rightarrow> syntax_result \<times> world" where
  "checkPythonSyntax e w0 code =
     (let (now, w) = dateNow e w0;
          tempFile = checkFile e now ''.py''
      in if length code > 1000000 then (sizeError, w)
         else case writeFile e w tempFile of
           Inl m \<Rightarrow> (failResult m, cleanupTempFile w tempFile)
         | Inr w1 \<Rightarrow>
             (case execAsync e w1 (pyCompileCommand tempFile) of
                (Inr out, w2) \<Rightarrow> (validResult, cleanupTempFile w2 tempFile)
              | (Inl err, w2) \<Rightarrow>
                  ((emptyResult False)
                     \<lparr>error := Some (xe_stderr err),
                      details := Some (DetailList (pythonDetails (xe_stderr err)))\<rparr>,
                   cleanupTempFile w2 tempFile)))"

definition javaDetails :: "string \<Rightarrow> detail_entry list" where
  "javaDetails stderr =
     List.map_filter
       (\<lambda>l. case findColonNum l of
              Some d \<Rightarrow> Some \<lparr>dline = parseInt d, dmessage = trim l\<rparr>
            | None \<Rightarrow> None)
       (split_nl stderr)"

definition javacCommand :: "string \<Rightarrow> string" where
  "javacCommand tempFile = ''javac '' @ quoted tempFile"

definition checkJavaSyntax :: "env \<Rightarrow> world \<Rightarrow> string \<Rightarrow> syntax_result \<times> world" where
  "checkJavaSyntax e w0 code =
     (let (timestamp, w) = dateNow e w0;
          className = ''Solution_'' @ showNat timestamp;
          tempFile = pathJoin (tempDir e) (className @ ''.java'')
      in if length code > 1000000 then (sizeError, w)
         else case writeFile e w tempFile of
           Inl m \<Rightarrow> (failResult m, cleanupTempFile w tempFile)
         | Inr w1 \<Rightarrow>
             (case execAsync e w1 (javacCommand tempFile) of
                (Inr out, w2) \<Rightarrow>
                  (validResult,
                   cleanupTempFile (cleanupTempFile w2 tempFile)
                     (pathJoin (tempDir e) (className @ ''.class'')))
              | (Inl err, w2) \<Rightarrow>
                  ((emptyResult False)
                     \<lparr>error := Some (xe_stderr err),
                      details := Some (DetailList (javaDetails (xe_stderr err)))\<rparr>,
                   cleanupTempFile w2 tempFile)))"

definition cErrors :: "string \<Rightarrow> error_entry list" where
  "cErrors stderr =
     List.map_filter
       (\<lambda>l. case findDiag l of
              Some (lineNum, col, type, msg) \<Rightarrow>
                Some \<lparr>line = parseInt lineNum, column = parseInt col, etype = type,
                      emessage = trim msg, suggestion = None\<rparr>
            | None \<Rightarrow> None)
       (split_nl stderr)"

definition gccCommand :: "string \<Rightarrow> string" where
  "gccCommand tempFile = ''gcc -fsyntax-only -Wall -pedantic '' @ quoted tempFile"

definition checkCSyntax :: "env \<Rightarrow> world \<Rightarrow> string \<Rightarrow> syntax_result \<times> world" where
  "checkCSyntax e w0 code =
     (let (now, w) = dateNow e w0;
          tempFile = checkFile e now ''.c''
      in if length code > 1000000 then (sizeError, w)
         else case writeFile e w tempFile of
           Inl m \<Rightarrow> (failResult m, cleanupTempFile w tempFile)
         | Inr w1 \<Rightarrow>
             (case execAsync e w1 (gccCommand tempFile) of
                (Inr out, w2) \<Rightarrow> (validResult, cleanupTempFile w2 tempFile)
              | (Inl err, w2) \<Rightarrow>
                  ((emptyResult False)
                     \<lparr>error := Some (xe_stderr err), errors := Some (cErrors (xe_stderr err))\<rparr>,
                   cleanupTempFile w2 tempFile)))"

subsection \<open>The C++ checker and its search over the standards\<close>

definition standards :: "(string \<times> string) list" where
  "standards =
     [(''c++20'', ''C++20''), (''c++17'', ''C++17''), (''c++14'', ''C++14''),
      (''c++11'', ''C++11''), (''c++98'', ''C++98'')]"

definition cppCommand :: "string \<Rightarrow> string \<Rightarrow> string" where
  "cppCommand std tempFile =
     ''g++ -std='' @ std @ '' -fsyntax-only -Wall -Wextra '' @ quoted tempFile"

text \<open>The state of the loop is \<open>(success, lastError, usedStandard)\<close>; \<open>mkCmd\<close> builds the
  command for a standard. A \<open>break\<close> is an equation without a recursive call.\<close>

fun tryStandards ::
  "env \<Rightarrow> (string \<Rightarrow> string) \<Rightarrow> (string \<times> string) list \<Rightarrow> exec_error option \<Rightarrow> world \<Rightarrow>
     (bool \<times> exec_error option \<times> string option) \<times> world" where
  "tryStandards e mkCmd [] lastError w = ((False, lastError, None), w)"
| "tryStandards e mkCmd ((std, name) # rest) lastError w =
     (case execAsync e w (mkCmd std) of
        (Inr out, w1) \<Rightarrow> ((True, lastError, Some name), w1)
      | (Inl err, w1) \<Rightarrow>
          if \<not> str_includes (xe_stderr err) ''standard''
          then ((False, Some err, Some name), w1)
          else tryStandards e mkCmd rest (Some err) w1)"

definition getSuggestionForError :: "string \<Rightarrow> string" where
  "getSuggestionForError msg =
     (if str_includes msg ''undefined reference'' then
        ''Make sure you have included the necessary header files and implemented all declared functions.''
      else if str_includes msg ''expected'' then
        ''Check for missing semicolons, parentheses, or braces.''
      else if str_includes msg ''no matching function'' then
        ''Verify that the function call matches the function declaration and all types are correct.''
      else if str_includes msg ''was not declared'' then
        ''Make sure you have declared the variable/function before using it or included the necessary header.''
      else if str_includes msg ''invalid use of'' then
        ''Check if you are using the type/variable correctly according to its declaration.''
      else ''Review the syntax and ensure all variables and types are properly declared.'')"

text \<open>The loop over the lines of the last error: \<open>adj\<close> is what the caller does to a raw
  line number, \<open>sugg\<close> its table of suggestions.\<close>

fun cppErrorLines ::
  "(int \<Rightarrow> int) \<Rightarrow> (string \<Rightarrow> string) \<Rightarrow> string list \<Rightarrow> string \<Rightarrow> error_entry list \<Rightarrow>
     string \<times> error_entry list" where
  "cppErrorLines adj sugg [] mainError errs = (mainError, errs)"
| "cppErrorLines adj sugg (l # ls) mainError errs =
     (if str_includes l ''standard'' then cppErrorLines adj sugg ls mainError errs
      else case findDiag l of
        None \<Rightarrow> cppErrorLines adj sugg ls mainError errs
      | Some (lineNum, col, type, msg) \<Rightarrow>
          cppErrorLines adj sugg ls
            (if type = ''error'' \<and> mainError = [] then msg else mainError)
            (errs @ [\<lparr>line = adj (parseInt lineNum), column = parseInt col, etype = type,
                      emessage = trim msg, suggestion = Some (sugg msg)\<rparr>]))"

definition cppHelp :: string where
  "cppHelp = ''Make sure your code follows C++ syntax rules and all required headers are included.''"

text \<open>What the checker returns after the loop. With no last error (the list of standards
  empty) \<open>lastError.stderr\<close> throws, and the inner \<open>catch\<close> answers.\<close>

definition cppReport ::
  "(int \<Rightarrow> int) \<Rightarrow> (string \<Rightarrow> string) \<Rightarrow> bool \<times> exec_error option \<times> string option \<Rightarrow> syntax_result" where
  "cppReport adj sugg st =
     (case st of (success, lastError, usedStandard) \<Rightarrow>
        if success then validResult\<lparr>standard := usedStandard\<rparr>
        else (case lastError of
          None \<Rightarrow>
            (emptyResult False)
              \<lparr>error := Some ''Cannot read properties of null (reading 'stderr')'',
               errors := Some [],
               help_text := Some ''An unexpected error occurred while checking the syntax.''\<rparr>
        | Some err \<Rightarrow>
            (case cppErrorLines adj sugg (split_nl (xe_stderr err)) [] [] of
               (mainError, errs) \<Rightarrow>
                 (emptyResult False)
                   \<lparr>error := Some (if mainError = [] then ''Syntax error in C++ code'' else mainError),
                    errors := Some errs,
                    standard := Some (case usedStandard of Some n \<Rightarrow> n | None \<Rightarrow> ''Unknown''),
                    help_text := Some cppHelp\<rparr>)))"

definition checkCPPSyntax :: "env \<Rightarrow> world \<Rightarrow> string \<Rightarrow> syntax_result \<times> world" where
  "checkCPPSyntax e w0 code =
     (let (now, w) = dateNow e w0;
          tempFile = checkFile e now ''.cpp''
      in if length code > 1000000 then (sizeError, w)
         else case writeFile e w tempFile of
           Inl m \<Rightarrow> (failResult m, cleanupTempFile w tempFile)
         | Inr w1 \<Rightarrow>
             (case tryStandards e (\<lambda>std. cppCommand std tempFile) standards None w1 of
                (st, w2) \<Rightarrow>
                  (cppReport (\<lambda>l. l) getSuggestionForError st, cleanupTempFile w2 tempFile)))"

section \<open>Line numbers after wrapping (server.js)\<close>

text \<open>The table \<open>wrapperLines\<close>, with \<open>|| 0\<close> for a language it does not list.\<close>

definition wrapperLines :: "string \<Rightarrow> int" where
  "wrapperLines language =
     (case map_of [(''cpp'', 24), (''java'', 13), (''python'', 5), (''c'', 5)] (toLowerCase language) of
        Some n \<Rightarrow> n
      | None \<Rightarrow> 0)"

text \<open>\<open>if (err.line) { err.line -= ...; err.line = Math.max(1, err.line) }\<close>: a line
  number 0 is falsy and stays.\<close>

definition adjustLine :: "string \<Rightarrow> int \<Rightarrow> int" where
  "adjustLine language l = (if l \<noteq> 0 then max 1 (l - wrapperLines language) else l)"

text \<open>\<open>adjustErrorLineNumbers\<close> changes the top-level \<open>line\<close> and the \<open>line\<close> of every entry
  of \<open>errors\<close>; it does not read \<open>details\<close>.\<close>

definition adjustErrorLineNumbers :: "syntax_result \<Rightarrow> string \<Rightarrow> bool \<Rightarrow> syntax_result" where
  "adjustErrorLineNumbers res language hasWrapper =
     (if \<not> hasWrapper then res
      else res\<lparr>rline := map_option (adjustLine language) (rline res),
               errors := map_option (map (\<lambda>err. err\<lparr>line := adjustLine language (line err)\<rparr>))
                           (errors res)\<rparr>)"

section \<open>The endpoint of server.js\<close>

text \<open>
  A response is a status and a JSON body: a client error (\<open>error\<close>, \<open>supported\<close>, \<open>help\<close>),
  an internal error (\<open>error\<close>, \<open>details\<close>, \<open>help\<close>), or a syntax result with the language
  requested and its normalised name.
\<close>

datatype body =
  ClientError string "string list option" "string option"
| InternalError string string "string option"
| SyntaxBody syntax_result string string

record response =
  status :: nat
  body :: body

definition unsupportedLanguage :: response where
  "unsupportedLanguage =
     \<lparr>status = 400,
      body = ClientError ''Unsupported language'' (Some (map fst LANGUAGE_ALIASES))
               (Some ''Please use one of the supported language identifiers.'')\<rparr>"

text \<open>\<open>hasWrapper\<close>, as the endpoint computes it from the code alone.\<close>

definition hasWrapper :: "string \<Rightarrow> bool" where
  "hasWrapper code = (\<not> str_includes code ''main('' \<and> \<not> str_includes code ''class'')"

text \<open>The call of \<open>wrapCodeSnippet\<close> in the endpoint: the clock is read in the Java branch
  that synthesizes a class, and nowhere else.\<close>

definition wrapCodeSnippetIO :: "env \<Rightarrow> world \<Rightarrow> string \<Rightarrow> string \<Rightarrow> string \<times> world" where
  "wrapCodeSnippetIO e w code language =
     (if toLowerCase language = ''java'' \<and> \<not> str_includes code ''class''
      then (case dateNow e w of (now, w1) \<Rightarrow> (wrapCodeSnippet now code language, w1))
      else (wrapCodeSnippet 0 code language, w))"

text \<open>
  The handler of \<open>POST /check-syntax\<close>, for a body whose \<open>code\<close> and \<open>language\<close> are
  strings. When the normalised language is an inherited property of the table and not a
  string, \<open>wrapCodeSnippet\<close> throws a \<open>TypeError\<close> at \<open>language.toLowerCase()\<close>, and the
  \<open>catch\<close> of the handler answers 500.
\<close>

definition checkSyntaxEndpoint :: "env \<Rightarrow> world \<Rightarrow> string \<Rightarrow> string \<Rightarrow> response \<times> world" where
  "checkSyntaxEndpoint e w code language =
     (if code = [] \<or> language = [] then
        (\<lparr>status = 400,
          body = ClientError ''Code and language are required'' None
                   (Some ''Please provide both code and language parameters.'')\<rparr>, w)
      else if length code > 1000000 then
        (\<lparr>status = 400,
          body = ClientError ''Code size exceeds maximum limit of 1MB'' None
                   (Some ''Please reduce the size of your code snippet.'')\<rparr>, w)
      else if \<not> truthy (normalizeLanguage language) then (unsupportedLanguage, w)
      else (case normalizeLanguage language of
        Str normalizedLang \<Rightarrow>
          (case wrapCodeSnippetIO e w code normalizedLang of (wrappedCode, w1) \<Rightarrow>
             if normalizedLang \<notin> set [''javascript'', ''python'', ''java'', ''cpp'', ''c'']
             then (unsupportedLanguage, w1)
             else
               (case (if normalizedLang = ''javascript'' then (checkJavaScriptSyntax e wrappedCode, w1)
                      else if normalizedLang = ''python'' then checkPythonSyntax e w1 wrappedCode
                      else if normalizedLang = ''java'' then checkJavaSyntax e w1 wrappedCode
                      else if normalizedLang = ''cpp'' then checkCPPSyntax e w1 wrappedCode
                      else checkCSyntax e w1 wrappedCode) of
                  (result, w2) \<Rightarrow>
                    (\<lparr>status = 200,
                      body = SyntaxBody
                        (if \<not> valid result \<and> hasWrapper code
                         then adjustErrorLineNumbers result normalizedLang (hasWrapper code)
                         else result)
                        language normalizedLang\<rparr>, w2)))
      | v \<Rightarrow>
          (\<lparr>status = 500,
            body = InternalError ''Internal server error'' ''language.toLowerCase is not a function''
                     (Some ''Please try again or contact support if the problem persists.'')\<rparr>, w)))"

definition world0 :: world where
  "world0 = \<lparr>files = {}, trace = [], ticks = 0\<rparr>"

section \<open>The executing server (source file part_003)\<close>

text \<open>
  A second version of the server checks the syntax and, when it is valid, runs the code.
  Its Python, C and JavaScript checkers are those of server.js, word for word; its Java
  and C++ checkers and its endpoint differ, and are modelled here under the source's
  names with the suffix \<open>_exec\<close>. Its JSON body parser is configured with a limit of
  \<open>MAX_CODE_SIZE\<close> bytes (1048576 unless the environment says otherwise); the handler
  below sees the requests that passed it.
\<close>

text \<open>\<open>executeWithTimeout(cmd, timeout)\<close>: \<open>exec\<close> with the \<open>timeout\<close> option; a child killed
  by \<open>SIGTERM\<close> rejects with \<open>new Error('Command timed out')\<close>, any other failure with the
  error of \<open>exec\<close>. Only the message of the error is read by the callers.\<close>

definition executeWithTimeout :: "env \<Rightarrow> world \<Rightarrow> string \<Rightarrow> nat \<Rightarrow> (string + string \<times> string) \<times> world" where
  "executeWithTimeout e w cmd timeout =
     (case run_cmd e w cmd (Some timeout) of
        Exit0 out err \<Rightarrow> Inr (out, err)
      | ExitFail m err killed \<Rightarrow> Inl (if killed then ''Command timed out'' else m),
      w\<lparr>trace := trace w @ [Ran cmd]\<rparr>)"

text \<open>What an executor returns: \<open>success\<close>, \<open>output\<close> and \<open>error\<close> (the fields \<open>xoutput\<close> and
  \<open>xerror\<close> here; \<open>None\<close> for \<open>null\<close> and for a property the object does not have).\<close>

record execution =
  success :: bool
  xoutput :: "string option"
  xerror :: "string option"

text \<open>\<open>s || null\<close> and \<open>s || d\<close> on strings: the empty string is falsy.\<close>

definition orNull :: "string \<Rightarrow> string option" where
  "orNull s = (if s = [] then None else Some s)"

definition orElse :: "string \<Rightarrow> string \<Rightarrow> string" where
  "orElse s d = (if s = [] then d else s)"

text \<open>The \<open>catch\<close> of the executors that run in Docker.\<close>

definition executionFailed :: "string \<Rightarrow> execution" where
  "executionFailed m =
     \<lparr>success = False, xoutput = None,
      xerror = Some (if str_includes m ''timed out''
                     then ''Execution timed out. Your code took too long to run.'' else m)\<rparr>"

definition tempFileNamed :: "env \<Rightarrow> string \<Rightarrow> nat \<Rightarrow> string \<Rightarrow> string" where
  "tempFileNamed e stem now ext = pathJoin (tempDir e) (stem @ showNat now @ ext)"

definition nodeCommand :: "string \<Rightarrow> string" where
  "nodeCommand tempFile = ''node '' @ quoted tempFile"

definition executeJavaScript :: "env \<Rightarrow> world \<Rightarrow> string \<Rightarrow> execution \<times> world" where
  "executeJavaScript e w0 code =
     (let (now, w) = dateNow e w0; tempFile = tempFileNamed e ''js_'' now ''.js''
      in case writeFile e w tempFile of
           Inl m \<Rightarrow> (\<lparr>success = False, xoutput = None, xerror = Some m\<rparr>, cleanupTempFile w tempFile)
         | Inr w1 \<Rightarrow>
             (case execAsync e w1 (nodeCommand tempFile) of
                (Inl err, w2) \<Rightarrow>
                  (\<lparr>success = False, xoutput = None, xerror = Some (xe_message err)\<rparr>,
                   cleanupTempFile w2 tempFile)
              | (Inr (stdout, stderr), w2) \<Rightarrow>
                  (if stderr \<noteq> [] then \<lparr>success = False, xoutput = None, xerror = Some stderr\<rparr>
                   else \<lparr>success = True,
                         xoutput = Some (orElse stdout ''Code executed successfully with no output''),
                         xerror = None\<rparr>,
                   cleanupTempFile w2 tempFile)))"

text \<open>\<open>docker run --rm -v "${tempDir}:/code" -w /code IMAGE REST\<close> and the argument
  \<open>/code/$(basename "${file}")\<close>.\<close>

definition dockerRun :: "env \<Rightarrow> string \<Rightarrow> string \<Rightarrow> string" where
  "dockerRun e img rest =
     ''docker run --rm -v '' @ quoted (tempDir e @ '':/code'') @ '' -w /code '' @ img @ '' '' @ rest"

definition inCode :: "string \<Rightarrow> string" where
  "inCode file = ''/code/$(basename '' @ quoted file @ '')''"

definition pythonRunCommand :: "env \<Rightarrow> string \<Rightarrow> string" where
  "pythonRunCommand e pythonFile =
     dockerRun e (DOCKER_PYTHON_IMAGE e) (''python '' @ inCode pythonFile)"

definition executePython :: "env \<Rightarrow> world \<Rightarrow> string \<Rightarrow> execution \<times> world" where
  "executePython e w0 code =
     (let (now, w) = dateNow e w0; pythonFile = tempFileNamed e ''script_'' now ''.py''
      in case writeFile e w pythonFile of
           Inl m \<Rightarrow> (executionFailed m, cleanupTempFile w pythonFile)
         | Inr w1 \<Rightarrow>
             (case executeWithTimeout e w1 (pythonRunCommand e pythonFile) (EXECUTION_TIMEOUT e) of
                (Inl m, w2) \<Rightarrow> (executionFailed m, cleanupTempFile w2 pythonFile)
              | (Inr (stdout, stderr), w2) \<Rightarrow>
                  (\<lparr>success = True, xoutput = Some stdout, xerror = orNull stderr\<rparr>,
                   cleanupTempFile w2 pythonFile)))"

text \<open>\<open>extractJavaClassName(code) || `Solution_${Date.now()}`\<close>: the clock is read only when
  the code has no public class.\<close>

definition javaClassName :: "env \<Rightarrow> world \<Rightarrow> string \<Rightarrow> string \<Rightarrow> string \<times> world" where
  "javaClassName e w stem code =
     (case findPublicClass code of
        Some name \<Rightarrow> (name, w)
      | None \<Rightarrow> (case dateNow e w of (now, w1) \<Rightarrow> (stem @ showNat now, w1)))"

definition javaCompileCommand :: "env \<Rightarrow> string \<Rightarrow> string" where
  "javaCompileCommand e javaFile =
     dockerRun e (DOCKER_JAVA_IMAGE e) (''javac '' @ inCode javaFile)"

definition javaRunCommand :: "env \<Rightarrow> string \<Rightarrow> string" where
  "javaRunCommand e className =
     dockerRun e (DOCKER_JAVA_IMAGE e) (''java -cp /code '' @ className)"

definition executeJava :: "env \<Rightarrow> world \<Rightarrow> string \<Rightarrow> execution \<times> world" where
  "executeJava e w0 code =
     (let (className, w) = javaClassName e w0 ''Solution_'' code;
          javaFile = pathJoin (tempDir e) (className @ ''.java'');
          classFile = pathJoin (tempDir e) (className @ ''.class'');
          cleanup = (\<lambda>w'. cleanupTempFile (cleanupTempFile w' javaFile) classFile)
      in case writeFile e w javaFile of
           Inl m \<Rightarrow> (executionFailed m, cleanup w)
         | Inr w1 \<Rightarrow>
             (case executeWithTimeout e w1 (javaCompileCommand e javaFile) (COMPILE_TIMEOUT e) of
                (Inl m, w2) \<Rightarrow> (executionFailed m, cleanup w2)
              | (Inr built, w2) \<Rightarrow>
                  (case executeWithTimeout e w2 (javaRunCommand e className) (EXECUTION_TIMEOUT e) of
                     (Inl m, w3) \<Rightarrow> (executionFailed m, cleanup w3)
                   | (Inr (stdout, stderr), w3) \<Rightarrow>
                       (\<lparr>success = True, xoutput = Some stdout, xerror = orNull stderr\<rparr>,
                        cleanup w3))))"

text \<open>The headers the C++ functions of this server put before the code.\<close>

definition headers :: string where
  "headers =
     ''#include <iostream>'' @ nl @ ''#include <stdexcept>'' @ nl @ ''#include <string>'' @ nl
     @ ''#include <vector>'' @ nl @ ''#include <algorithm>'' @ nl @ ''#include <memory>'' @ nl
     @ ''#include <cstdlib>'' @ nl @ ''#include <cstring>'' @ nl @ ''#include <cctype>'' @ nl
     @ ''#include <cmath>'' @ nl @ nl @ ''using namespace std;'' @ nl @ nl"

text \<open>\<open>parseInt(lineNum) - headers.split('\n').length + 1\<close>, then \<open>Math.max(1, ...)\<close>.\<close>

definition adjustForHeaders :: "int \<Rightarrow> int" where
  "adjustForHeaders lineNum = max 1 (lineNum - int (length (split_nl headers)) + 1)"

definition getSuggestionForError_exec :: "string \<Rightarrow> string" where
  "getSuggestionForError_exec msg =
     (if str_includes msg ''template declaration cannot appear at block scope'' then
        ''Template declarations must be at global scope. Move your template class/function definition outside of any function.''
      else if str_includes msg ''was not declared in this scope'' then
        ''Make sure the identifier is declared before use. Check for typos and proper includes.''
      else if str_includes msg ''expected primary-expression'' then
        ''Check for missing semicolons, parentheses, or braces. Also verify template syntax is correct.''
      else if str_includes msg ''no matching function'' then
        ''Verify that the function call matches the function declaration and all types are correct.''
      else if str_includes msg ''invalid use of'' then
        ''Check if you are using the type/variable correctly according to its declaration.''
      else if str_includes msg ''undefined reference'' then
        ''Make sure you have included the necessary header files and implemented all declared functions.''
      else if str_includes msg ''local class shall not have static data member'' then
        ''Move the class definition to global scope and ensure static members are properly declared.''
      else ''Review the syntax and ensure all variables and types are properly declared.'')"

text \<open>The loop of \<open>executeCPP\<close> over the lines of the build's stderr: the loop of the
  checker without the test for \<open>standard\<close>.\<close>

fun buildErrorLines :: "string list \<Rightarrow> string \<Rightarrow> error_entry list \<Rightarrow> string \<times> error_entry list" where
  "buildErrorLines [] mainError errs = (mainError, errs)"
| "buildErrorLines (l # ls) mainError errs =
     (case findDiag l of
        None \<Rightarrow> buildErrorLines ls mainError errs
      | Some (lineNum, col, type, msg) \<Rightarrow>
          buildErrorLines ls
            (if type = ''error'' \<and> mainError = [] then msg else mainError)
            (errs @ [\<lparr>line = adjustForHeaders (parseInt lineNum), column = parseInt col,
                      etype = type, emessage = trim msg,
                      suggestion = Some (getSuggestionForError_exec msg)\<rparr>]))"

text \<open>\<open>executeCPP\<close>: the source and a Dockerfile are written, an image is built and run,
  the image is removed in the inner \<open>finally\<close> (an error of \<open>docker rmi\<close> is swallowed), the
  three temp files in the outer one. The object returned on a build with output on stderr
  also has \<open>errors\<close>, which no caller reads.\<close>

definition cppBuildCommand :: "env \<Rightarrow> string \<Rightarrow> string \<Rightarrow> string" where
  "cppBuildCommand e imageTag dockerfilePath =
     ''docker build -t '' @ imageTag @ '' -f '' @ quoted dockerfilePath @ '' '' @ quoted (tempDir e)"

definition cppRunCommand :: "string \<Rightarrow> string" where
  "cppRunCommand imageTag = ''docker run --rm '' @ imageTag"

definition executeCPP :: "env \<Rightarrow> world \<Rightarrow> string \<Rightarrow> execution \<times> world" where
  "executeCPP e w0 code =
     (let (timestamp, w) = dateNow e w0;
          cppFile = tempFileNamed e ''program_'' timestamp ''.cpp'';
          execFile = tempFileNamed e ''program_'' timestamp [];
          dockerfilePath = tempFileNamed e ''Dockerfile_'' timestamp [];
          imageTag = ''cpp_program_'' @ showNat timestamp;
          cleanup = (\<lambda>w'. cleanupTempFile (cleanupTempFile (cleanupTempFile w' cppFile) execFile)
                              dockerfilePath);
          rmi = (\<lambda>w'. snd (execAsync e w' (''docker rmi '' @ imageTag)))
      in case writeFile e w cppFile of
           Inl m \<Rightarrow> (executionFailed m, cleanup w)
         | Inr w1 \<Rightarrow>
             (case writeFile e w1 dockerfilePath of
                Inl m \<Rightarrow> (executionFailed m, cleanup w1)
              | Inr w2 \<Rightarrow>
                  (case executeWithTimeout e w2 (cppBuildCommand e imageTag dockerfilePath)
                          (COMPILE_TIMEOUT e) of
                     (Inl m, w3) \<Rightarrow> (executionFailed m, cleanup (rmi w3))
                   | (Inr (buildStdout, buildStderr), w3) \<Rightarrow>
                       if buildStderr \<noteq> [] then
                         (\<lparr>success = False, xoutput = None,
                           xerror = Some (orElse (fst (buildErrorLines (split_nl buildStderr) [] []))
                                            ''Compilation failed'')\<rparr>,
                          cleanup (rmi w3))
                       else
                         (case executeWithTimeout e w3 (cppRunCommand imageTag)
                                 (EXECUTION_TIMEOUT e) of
                            (Inl m, w4) \<Rightarrow> (executionFailed m, cleanup (rmi w4))
                          | (Inr (stdout, stderr), w4) \<Rightarrow>
                              (\<lparr>success = True, xoutput = Some stdout, xerror = orNull stderr\<rparr>,
                               cleanup (rmi w4))))))"

text \<open>\<open>executeC\<close>: the clock is read once for the source file and once for the executable.
  (The text written to the source file is not part of the world: a run ends as \<open>run_cmd\<close>
  says.)\<close>

definition cCompileCommand :: "env \<Rightarrow> string \<Rightarrow> string \<Rightarrow> string" where
  "cCompileCommand e cFile execFile =
     dockerRun e (DOCKER_C_IMAGE e)
       (''gcc -Wall -Wextra -std=c17 '' @ inCode cFile @ '' -o '' @ inCode execFile)"

definition cRunCommand :: "env \<Rightarrow> string \<Rightarrow> string" where
  "cRunCommand e execFile = dockerRun e (DOCKER_C_IMAGE e) (inCode execFile)"

definition executeC :: "env \<Rightarrow> world \<Rightarrow> string \<Rightarrow> execution \<times> world" where
  "executeC e w0 code =
     (let (now1, wa) = dateNow e w0; (now2, w) = dateNow e wa;
          cFile = tempFileNamed e ''program_'' now1 ''.c'';
          execFile = tempFileNamed e ''program_'' now2 [];
          cleanup = (\<lambda>w'. cleanupTempFile (cleanupTempFile w' cFile) execFile)
      in case writeFile e w cFile of
           Inl m \<Rightarrow> (executionFailed m, cleanup w)
         | Inr w1 \<Rightarrow>
             (case executeWithTimeout e w1 (cCompileCommand e cFile execFile) (COMPILE_TIMEOUT e) of
                (Inl m, w2) \<Rightarrow> (executionFailed m, cleanup w2)
              | (Inr built, w2) \<Rightarrow>
                  (case executeWithTimeout e w2 (cRunCommand e execFile) (EXECUTION_TIMEOUT e) of
                     (Inl m, w3) \<Rightarrow> (executionFailed m, cleanup w3)
                   | (Inr (stdout, stderr), w3) \<Rightarrow>
                       (\<lparr>success = (stderr = []), xoutput = Some stdout, xerror = orNull stderr\<rparr>,
                        cleanup w3))))"

text \<open>\<open>checkJavaSyntax\<close> of this server: one \<open>try\<close> around everything, and a \<open>catch\<close> that
  returns without touching the temp file.\<close>

definition checkJavaSyntax_exec :: "env \<Rightarrow> world \<Rightarrow> string \<Rightarrow> syntax_result \<times> world" where
  "checkJavaSyntax_exec e w0 code =
     (let (className, w) = javaClassName e w0 ''Check_'' code;
          tempFile = pathJoin (tempDir e) (className @ ''.java'')
      in case writeFile e w tempFile of
           Inl m \<Rightarrow> ((failResult m)\<lparr>details := Some (DetailList [])\<rparr>, w)
         | Inr w1 \<Rightarrow>
             (case execAsync e w1 (dockerRun e ''openjdk:11'' (''javac '' @ inCode tempFile)) of
                (Inl err, w2) \<Rightarrow> ((failResult (xe_message err))\<lparr>details := Some (DetailList [])\<rparr>, w2)
              | (Inr out, w2) \<Rightarrow>
                  (validResult,
                   cleanupTempFile (cleanupTempFile w2 tempFile)
                     (replaceFirst tempFile ''.java'' ''.class''))))"

definition standards_exec :: "(string \<times> string) list" where
  "standards_exec =
     [(''c++20'', ''C++20''), (''c++17'', ''C++17''), (''c++14'', ''C++14''),
      (''c++11'', ''C++11'')]"

definition cppCommand_exec :: "env \<Rightarrow> string \<Rightarrow> string \<Rightarrow> string" where
  "cppCommand_exec e std tempFile =
     ''docker run --rm -v '' @ quoted (tempDir e @ '':/workspace'') @ '' -w /workspace ''
     @ DOCKER_CPP_IMAGE e @ '' bash -c '' @ [CHR 0x27]
     @ ''cat /workspace/$(basename '' @ quoted tempFile @ '') && g++ -std='' @ std
     @ '' -fsyntax-only -Wall -Wextra /workspace/$(basename '' @ quoted tempFile @ '')''
     @ [CHR 0x27]"

definition checkCPPSyntax_exec :: "env \<Rightarrow> world \<Rightarrow> string \<Rightarrow> syntax_result \<times> world" where
  "checkCPPSyntax_exec e w0 code =
     (let (now, w) = dateNow e w0; tempFile = checkFile e now ''.cpp''
      in if length code > 1000000 then (sizeError, w)
         else case writeFile e w tempFile of
           Inl m \<Rightarrow> (failResult m, cleanupTempFile w tempFile)
         | Inr w1 \<Rightarrow>
             (case tryStandards e (\<lambda>std. cppCommand_exec e std tempFile) standards_exec None w1 of
                (st, w2) \<Rightarrow>
                  (cppReport adjustForHeaders getSuggestionForError_exec st,
                   cleanupTempFile w2 tempFile)))"

text \<open>The body of a 200 response of this server and the \<open>execution\<close> in it.\<close>

record run_body =
  rb_valid :: bool
  rb_message :: "string option"
  rb_error :: "string option"
  rb_details :: "details option"
  rb_requested :: string
  rb_normalized :: string
  rb_execution :: "execution option"

datatype body_exec =
  ClientError_exec string
| RunBody run_body

record response_exec =
  status_exec :: nat
  body_exec :: body_exec

definition unsupportedLanguage_exec :: response_exec where
  "unsupportedLanguage_exec = \<lparr>status_exec = 400, body_exec = ClientError_exec ''Unsupported language''\<rparr>"

text \<open>The validation and, when it is valid, the execution, for one normalised language.\<close>

definition checkAndExecute ::
  "env \<Rightarrow> world \<Rightarrow> string \<Rightarrow> string \<Rightarrow> syntax_result \<times> execution option \<times> world" where
  "checkAndExecute e w normalizedLang code =
     (if normalizedLang = ''javascript'' then
        (let syntaxResult = checkJavaScriptSyntax e code in
         if valid syntaxResult
         then (case executeJavaScript e w code of (x, w1) \<Rightarrow> (syntaxResult, Some x, w1))
         else (syntaxResult, None, w))
      else
        (case (if normalizedLang = ''python'' then checkPythonSyntax e w code
               else if normalizedLang = ''java'' then checkJavaSyntax_exec e w code
               else if normalizedLang = ''cpp'' then checkCPPSyntax_exec e w code
               else checkCSyntax e w code) of
           (syntaxResult, w1) \<Rightarrow>
             if valid syntaxResult
             then (case (if normalizedLang = ''python'' then executePython e w1 code
                         else if normalizedLang = ''java'' then executeJava e w1 code
                         else if normalizedLang = ''cpp'' then executeCPP e w1 code
                         else executeC e w1 code) of
                     (x, w2) \<Rightarrow> (syntaxResult, Some x, w2))
             else (syntaxResult, None, w1)))"

text \<open>The \<open>execution\<close> of the response: \<open>output\<close> only of a success, \<open>error\<close> only of a
  failure.\<close>

definition executionReport :: "execution \<Rightarrow> execution" where
  "executionReport x =
     \<lparr>success = success x,
      xoutput = (if success x then xoutput x else None),
      xerror = (if success x then None else xerror x)\<rparr>"

text \<open>
  The handler of \<open>POST /check-syntax\<close> of this server, for a body whose \<open>code\<close> and
  \<open>language\<close> are strings. \<open>decodeURIComponent\<close> is the environment's; when it throws, the
  code stays as it is. A normalised language that is not one of the five names, among
  them an inherited property of the table, falls to the \<open>default\<close> of the \<open>switch\<close>.
\<close>

definition checkSyntaxEndpoint_exec ::
  "env \<Rightarrow> world \<Rightarrow> string \<Rightarrow> string \<Rightarrow> response_exec \<times> world" where
  "checkSyntaxEndpoint_exec e w code0 language =
     (if code0 = [] \<or> language = [] then
        (\<lparr>status_exec = 400, body_exec = ClientError_exec ''Both code and language are required''\<rparr>, w)
      else
        (let code = (case decode_uri e code0 of Some c \<Rightarrow> c | None \<Rightarrow> code0) in
         if \<not> truthy (normalizeLanguage language) then (unsupportedLanguage_exec, w)
         else (case normalizeLanguage language of
           Str normalizedLang \<Rightarrow>
             if normalizedLang \<notin> set [''javascript'', ''python'', ''java'', ''cpp'', ''c'']
             then (unsupportedLanguage_exec, w)
             else
               (case checkAndExecute e w normalizedLang code of
                  (syntaxResult, executionResult, w1) \<Rightarrow>
                    (\<lparr>status_exec = 200,
                      body_exec = RunBody
                        \<lparr>rb_valid = valid syntaxResult, rb_message = message syntaxResult,
                         rb_error = error syntaxResult, rb_details = details syntaxResult,
                         rb_requested = language, rb_normalized = normalizedLang,
                         rb_execution =
                           (if valid syntaxResult then map_option executionReport executionResult
                            else None)\<rparr>\<rparr>, w1))
         | v \<Rightarrow> (unsupportedLanguage_exec, w))))"

section \<open>Behaviours of the world that the statements use\<close>

text \<open>
  What the compiler says about one standard, whatever the state of the world when it is
  asked: it accepts the file (\<open>acceptsStandard\<close>), or it rejects it with an output that
  mentions \<open>standard\<close> (\<open>rejectsForStandard\<close>).
\<close>

definition acceptsStandard :: "env \<Rightarrow> string \<Rightarrow> string \<Rightarrow> bool" where
  "acceptsStandard e tempFile std =
     (\<forall>w. \<exists>out err. run_cmd e w (cppCommand std tempFile) None = Exit0 out err)"

definition rejectsForStandard :: "env \<Rightarrow> string \<Rightarrow> string \<Rightarrow> bool" where
  "rejectsForStandard e tempFile std =
     (\<forall>w. \<exists>m err k. run_cmd e w (cppCommand std tempFile) None = ExitFail m err k
           \<and> str_includes err ''standard'')"

text \<open>A compiler that rejects the file under C++20 only, with a complaint about the
  standard, and accepts it under every older one.\<close>

definition newestOnlyRejects :: env where
  "newestOnlyRejects =
     quietEnv\<lparr>run_cmd := (\<lambda>w cmd t.
        if str_includes cmd ''-std=c++20''
        then ExitFail ''Command failed'' ''error: not allowed by this standard'' False
        else Exit0 [] [])\<rparr>"

definition warningOnlyStderr :: string where
  "warningOnlyStderr =
     ''/app/temp/check_1700.c:6:9: warning: unused variable x [-Wunused-variable]''"

text \<open>A compiler run that exits with status 0 and prints one warning.\<close>

definition warnsAndSucceeds :: env where
  "warnsAndSucceeds = quietEnv\<lparr>run_cmd := (\<lambda>w cmd t. Exit0 [] warningOnlyStderr)\<rparr>"

text \<open>A compiler run that fails and prints a warning, an error and a source line.\<close>

definition mixedStderr :: string where
  "mixedStderr =
     ''/app/temp/check_1700.c:6:9: warning: unused variable x [-Wunused-variable]'' @ nl
     @ ''/app/temp/check_1700.c:7:5: error: expected ; before return'' @ nl
     @ ''    7 |     return 0;''"

definition warnsAndFails :: env where
  "warnsAndFails =
     quietEnv\<lparr>run_cmd := (\<lambda>w cmd t. ExitFail ''Command failed'' mixedStderr False)\<rparr>"

text \<open>A Java compiler that rejects the file.\<close>

definition javacFails :: env where
  "javacFails =
     quietEnv\<lparr>run_cmd := (\<lambda>w cmd t.
        ExitFail ''Command failed: javac''
          ''Check_1700.java:1: error: class, interface, or enum expected'' False)\<rparr>"

text \<open>Every command exits with status 0, prints \<open>done\<close> and writes a warning to stderr.\<close>

definition stderrWarning :: string where
  "stderrWarning = ''(node:7) Warning: deprecated''"

definition warnsOnStderr :: env where
  "warnsOnStderr = quietEnv\<lparr>run_cmd := (\<lambda>w cmd t. Exit0 ''done'' stderrWarning)\<rparr>"

text \<open>A C++ compiler that reports one error, on line 27 of the file it is given.\<close>

definition errorAtLine27 :: string where
  "errorAtLine27 = ''/app/temp/check_1700.cpp:27:13: error: expected primary-expression before ; token''"

definition cppErrorAt27 :: env where
  "cppErrorAt27 = quietEnv\<lparr>run_cmd := (\<lambda>w cmd t. ExitFail ''Command failed'' errorAtLine27 False)\<rparr>"

text \<open>A Python compile check that reports a syntax error on line 6 of the file it is
  given.\<close>

definition errorAtLine6 :: string where
  "errorAtLine6 =
     ''  File '' @ quoted ''/app/temp/check_1700.py'' @ '', line 6'' @ nl
     @ ''    def f(:'' @ nl @ ''SyntaxError: invalid syntax''"

definition pythonErrorAt6 :: env where
  "pythonErrorAt6 = quietEnv\<lparr>run_cmd := (\<lambda>w cmd t. ExitFail ''Command failed'' errorAtLine6 False)\<rparr>"


section \<open>Properties of the search over the C++ standards\<close>

lemma tryStandards_first_accepting:
  assumes "\<forall>s \<in> set pre. rejectsForStandard e f (fst s)"
    and "acceptsStandard e f std"
  shows "\<exists>le' w'. tryStandards e (\<lambda>s. cppCommand s f) (pre @ (std, name) # post) le w
           = ((True, le', Some name), w')"
  using assms
proof (induction pre arbitrary: le w)
  case Nil
  from Nil.prems(2) obtain out err where "run_cmd e w (cppCommand std f) None = Exit0 out err"
    unfolding acceptsStandard_def by blast
  then show ?case
    by (simp add: execAsync_def)
next
  case (Cons a pre)
  obtain s n where a: "a = (s, n)" by (cases a)
  from Cons.prems have "rejectsForStandard e f s" by (simp add: a)
  then obtain m err k where r: "run_cmd e w (cppCommand s f) None = ExitFail m err k"
      "str_includes err ''standard''"
    unfolding rejectsForStandard_def by blast
  from Cons.IH[of "Some \<lparr>xe_message = m, xe_stderr = err\<rparr>"
      "w\<lparr>trace := trace w @ [Ran (cppCommand s f)]\<rparr>"] Cons.prems
  show ?case by (simp add: a execAsync_def r)
qed

lemma checkCPPSyntax_written:
  assumes "length code \<le> 1000000"
    and "f = checkFile e (date_now e (ticks w)) ''.cpp''"
    and "write_fails e (w\<lparr>ticks := Suc (ticks w)\<rparr>) f = None"
  shows "fst (checkCPPSyntax e w code) =
           cppReport (\<lambda>l. l) getSuggestionForError
             (fst (tryStandards e (\<lambda>std. cppCommand std f) standards None
                (w\<lparr>ticks := Suc (ticks w), files := insert f (files w),
                    trace := trace w @ [Wrote f]\<rparr>)))"
  using assms
  by (simp add: checkCPPSyntax_def dateNow_def writeFile_def Let_def split_beta)

lemma newestOnlyRejects_file:
  "checkFile newestOnlyRejects (date_now newestOnlyRejects (ticks world0)) ''.cpp''
     = ''/app/temp/check_1700.cpp''"
proof -
  have "showNat 1700 = ''1700''" by code_simp
  then show ?thesis by (simp add: newestOnlyRejects_def quietEnv_def world0_def pathJoin_def checkFile_def)
qed

lemma newestOnlyRejects_rejects:
  "rejectsForStandard newestOnlyRejects ''/app/temp/check_1700.cpp'' ''c++20''"
  by (auto simp add: rejectsForStandard_def newestOnlyRejects_def quietEnv_def cppCommand_def quoted_def)

lemma newestOnlyRejects_accepts:
  "std \<in> set [''c++17'', ''c++14'', ''c++11'', ''c++98''] \<Longrightarrow>
     acceptsStandard newestOnlyRejects ''/app/temp/check_1700.cpp'' std"
  by (auto simp add: acceptsStandard_def newestOnlyRejects_def quietEnv_def cppCommand_def quoted_def)

lemma newestOnlyRejects_not_accepted:
  "\<not> acceptsStandard newestOnlyRejects ''/app/temp/check_1700.cpp'' ''c++20''"
proof
  assume "acceptsStandard newestOnlyRejects ''/app/temp/check_1700.cpp'' ''c++20''"
  then obtain out err where
    "run_cmd newestOnlyRejects world0 (cppCommand ''c++20'' ''/app/temp/check_1700.cpp'') None
       = Exit0 out err"
    unfolding acceptsStandard_def by blast
  then show False
    by (simp add: newestOnlyRejects_def quietEnv_def cppCommand_def quoted_def)
qed

lemma newestOnlyRejects_search:
  "\<exists>le' w'. tryStandards newestOnlyRejects (\<lambda>s. cppCommand s ''/app/temp/check_1700.cpp'')
      standards None w = ((True, le', Some ''C++17''), w')"
proof -
  have "standards = [(''c++20'', ''C++20'')] @ (''c++17'', ''C++17'')
         # [(''c++14'', ''C++14''), (''c++11'', ''C++11''), (''c++98'', ''C++98'')]"
    by (simp add: standards_def)
  moreover have "\<exists>le' w'. tryStandards newestOnlyRejects (\<lambda>s. cppCommand s ''/app/temp/check_1700.cpp'')
      ([(''c++20'', ''C++20'')] @ (''c++17'', ''C++17'')
         # [(''c++14'', ''C++14''), (''c++11'', ''C++11''), (''c++98'', ''C++98'')]) None w
      = ((True, le', Some ''C++17''), w')"
    by (rule tryStandards_first_accepting)
       (simp_all add: newestOnlyRejects_rejects newestOnlyRejects_accepts)
  ultimately show ?thesis by simp
qed

text \<open>
  C2, as stated, fails. The file is rejected under C++20 and accepted under C++17, C++14,
  C++11 and C++98; the oldest standard of the list that accepts it is C++98, the last
  entry, and the checker reports C++17.
\<close>

theorem C2_reports_newest_accepting_counterexample:
  "\<not> acceptsStandard newestOnlyRejects ''/app/temp/check_1700.cpp'' ''c++20''
   \<and> acceptsStandard newestOnlyRejects ''/app/temp/check_1700.cpp'' ''c++17''
   \<and> acceptsStandard newestOnlyRejects ''/app/temp/check_1700.cpp'' ''c++98''
   \<and> last standards = (''c++98'', ''C++98'')
   \<and> fst (checkCPPSyntax newestOnlyRejects world0 ''int concept = 1;'')
       = validResult\<lparr>standard := Some ''C++17''\<rparr>"
proof -
  have w: "write_fails newestOnlyRejects (world0\<lparr>ticks := Suc (ticks world0)\<rparr>)
      ''/app/temp/check_1700.cpp'' = None"
    by (simp add: newestOnlyRejects_def quietEnv_def)
  obtain le' w' where "tryStandards newestOnlyRejects
      (\<lambda>s. cppCommand s ''/app/temp/check_1700.cpp'') standards None
      (world0\<lparr>ticks := Suc (ticks world0),
         files := insert ''/app/temp/check_1700.cpp'' (files world0),
         trace := trace world0 @ [Wrote ''/app/temp/check_1700.cpp'']\<rparr>)
      = ((True, le', Some ''C++17''), w')"
    using newestOnlyRejects_search by blast
  then have "fst (checkCPPSyntax newestOnlyRejects world0 ''int concept = 1;'')
       = validResult\<lparr>standard := Some ''C++17''\<rparr>"
    using checkCPPSyntax_written[of "''int concept = 1;''" "''/app/temp/check_1700.cpp''"
        newestOnlyRejects world0, OF _ newestOnlyRejects_file[symmetric] w]
    by (simp add: cppReport_def)
  then show ?thesis
    by (simp add: newestOnlyRejects_not_accepted newestOnlyRejects_accepts standards_def)
qed

text \<open>
  C2, amended: the search runs from the newest standard to the oldest and settles on the
  first one that accepts the file, when every newer one rejects it with an output that
  mentions \<open>standard\<close>: the result is valid and names that standard, the newest of the
  list that accepts the file.
\<close>

theorem C2_reports_first_accepting_standard:
  assumes "standards = pre @ (std, name) # post"
    and "\<forall>s \<in> set pre. rejectsForStandard e f (fst s)"
    and "acceptsStandard e f std"
    and "length code \<le> 1000000"
    and "f = checkFile e (date_now e (ticks w)) ''.cpp''"
    and "write_fails e (w\<lparr>ticks := Suc (ticks w)\<rparr>) f = None"
  shows "fst (checkCPPSyntax e w code) = validResult\<lparr>standard := Some name\<rparr>"
proof -
  obtain le' w' where
    "tryStandards e (\<lambda>s. cppCommand s f) (pre @ (std, name) # post) None
       (w\<lparr>ticks := Suc (ticks w), files := insert f (files w), trace := trace w @ [Wrote f]\<rparr>)
     = ((True, le', Some name), w')"
    using tryStandards_first_accepting[OF assms(2,3)] by blast
  then show ?thesis
    using checkCPPSyntax_written[OF assms(4,5,6)] assms(1)
    by (simp add: cppReport_def)
qed

theorem C2_reports_first_accepting_standard_witness:
  "fst (checkCPPSyntax newestOnlyRejects world0 ''int concept = 1;'')
     = validResult\<lparr>standard := Some ''C++17''\<rparr>"
proof (rule C2_reports_first_accepting_standard[where
    pre = "[(''c++20'', ''C++20'')]" and std = "''c++17''"
    and post = "[(''c++14'', ''C++14''), (''c++11'', ''C++11''), (''c++98'', ''C++98'')]"
    and f = "''/app/temp/check_1700.cpp''"])
  show "standards = [(''c++20'', ''C++20'')] @ (''c++17'', ''C++17'')
      # [(''c++14'', ''C++14''), (''c++11'', ''C++11''), (''c++98'', ''C++98'')]"
    by (simp add: standards_def)
  show "\<forall>s\<in>set [(''c++20'', ''C++20'')].
      rejectsForStandard newestOnlyRejects ''/app/temp/check_1700.cpp'' (fst s)"
    by (simp add: newestOnlyRejects_rejects)
  show "acceptsStandard newestOnlyRejects ''/app/temp/check_1700.cpp'' ''c++17''"
    by (simp add: newestOnlyRejects_accepts)
  show "length ''int concept = 1;'' \<le> 1000000" by simp
  show "''/app/temp/check_1700.cpp''
      = checkFile newestOnlyRejects (date_now newestOnlyRejects (ticks world0)) ''.cpp''"
    by (rule newestOnlyRejects_file[symmetric])
  show "write_fails newestOnlyRejects (world0\<lparr>ticks := Suc (ticks world0)\<rparr>)
      ''/app/temp/check_1700.cpp'' = None"
    by (simp add: newestOnlyRejects_def quietEnv_def)
qed

section \<open>Properties of the C checker\<close>

lemma showNat_1700: "showNat 1700 = ''1700''"
  by code_simp

lemma checkCSyntax_written:
  assumes "length code \<le> 1000000"
    and "f = checkFile e (date_now e (ticks w)) ''.c''"
    and "write_fails e (w\<lparr>ticks := Suc (ticks w)\<rparr>) f = None"
  shows "fst (checkCSyntax e w code) =
     (case run_cmd e (w\<lparr>ticks := Suc (ticks w), files := insert f (files w),
                         trace := trace w @ [Wrote f]\<rparr>) (gccCommand f) None of
        Exit0 out err \<Rightarrow> validResult
      | ExitFail m err k \<Rightarrow>
          (emptyResult False)\<lparr>error := Some err, errors := Some (cErrors err)\<rparr>)"
  using assms
  by (simp add: checkCSyntax_def dateNow_def writeFile_def execAsync_def
      Let_def split_beta split: proc_outcome.splits)

lemma cErrors_warningOnly:
  "cErrors warningOnlyStderr =
     [\<lparr>line = 6, column = 9, etype = ''warning'',
       emessage = ''unused variable x [-Wunused-variable]'', suggestion = None\<rparr>]"
  by code_simp

lemma cErrors_mixed:
  "cErrors mixedStderr =
     [\<lparr>line = 6, column = 9, etype = ''warning'',
       emessage = ''unused variable x [-Wunused-variable]'', suggestion = None\<rparr>,
      \<lparr>line = 7, column = 5, etype = ''error'',
       emessage = ''expected ; before return'', suggestion = None\<rparr>]"
  by code_simp

text \<open>
  C9, as stated, fails. The compiler exits with status 0 and prints a warning, which the
  pattern of the checker would capture; the result is the valid one, and it has neither
  \<open>errors\<close> nor \<open>details\<close>: the warning is not in the result.
\<close>

theorem C9_warning_of_successful_compile_dropped_counterexample:
  "cErrors warningOnlyStderr =
     [\<lparr>line = 6, column = 9, etype = ''warning'',
       emessage = ''unused variable x [-Wunused-variable]'', suggestion = None\<rparr>]
   \<and> fst (checkCSyntax warnsAndSucceeds world0 ''int x;'') = validResult
   \<and> errors validResult = None \<and> details validResult = None"
proof -
  have "fst (checkCSyntax warnsAndSucceeds world0 ''int x;'') = validResult"
    using checkCSyntax_written[of "''int x;''" "''/app/temp/check_1700.c''" warnsAndSucceeds world0]
    by (simp add: warnsAndSucceeds_def quietEnv_def world0_def checkFile_def pathJoin_def showNat_1700)
  then show ?thesis
    by (simp add: cErrors_warningOnly validResult_def emptyResult_def)
qed

text \<open>
  C9, amended: for a C validation that reaches the compiler (the code within the size
  limit, the temp file written), \<open>valid\<close> is true exactly when the single invocation of
  \<open>gcc -fsyntax-only -Wall -pedantic\<close> exits with status 0. When it fails, \<open>errors\<close> holds,
  in order, one entry for every line of its stderr that the pattern matches, warnings
  and errors alike (\<open>cErrors\<close>); when it succeeds the result has no diagnostics.
\<close>

theorem C9_c_result_follows_exit_status:
  assumes "length code \<le> 1000000"
    and "f = checkFile e (date_now e (ticks w)) ''.c''"
    and "write_fails e (w\<lparr>ticks := Suc (ticks w)\<rparr>) f = None"
    and "w1 = w\<lparr>ticks := Suc (ticks w), files := insert f (files w), trace := trace w @ [Wrote f]\<rparr>"
  shows "fst (checkCSyntax e w code) =
           (case run_cmd e w1 (gccCommand f) None of
              Exit0 out err \<Rightarrow> validResult
            | ExitFail m err k \<Rightarrow>
                (emptyResult False)\<lparr>error := Some err, errors := Some (cErrors err)\<rparr>)
         \<and> valid (fst (checkCSyntax e w code))
             = (\<exists>out err. run_cmd e w1 (gccCommand f) None = Exit0 out err)
         \<and> errors validResult = None \<and> details validResult = None"
  using checkCSyntax_written[OF assms(1,2,3)] assms(4)
  by (simp add: validResult_def emptyResult_def split: proc_outcome.splits)

theorem C9_c_result_follows_exit_status_witness:
  "fst (checkCSyntax warnsAndFails world0 ''int x'') =
     (emptyResult False)
       \<lparr>error := Some mixedStderr,
        errors := Some
          [\<lparr>line = 6, column = 9, etype = ''warning'',
            emessage = ''unused variable x [-Wunused-variable]'', suggestion = None\<rparr>,
           \<lparr>line = 7, column = 5, etype = ''error'',
            emessage = ''expected ; before return'', suggestion = None\<rparr>]\<rparr>
   \<and> \<not> valid (fst (checkCSyntax warnsAndFails world0 ''int x''))"
proof -
  have f: "''/app/temp/check_1700.c'' = checkFile warnsAndFails (date_now warnsAndFails (ticks world0)) ''.c''"
    by (simp add: warnsAndFails_def quietEnv_def world0_def checkFile_def pathJoin_def showNat_1700)
  have w: "write_fails warnsAndFails (world0\<lparr>ticks := Suc (ticks world0)\<rparr>) ''/app/temp/check_1700.c'' = None"
    by (simp add: warnsAndFails_def quietEnv_def)
  have l: "length ''int x'' \<le> 1000000" by simp
  show ?thesis
    using C9_c_result_follows_exit_status[OF l f w refl]
    by (simp add: warnsAndFails_def quietEnv_def cErrors_mixed emptyResult_def)
qed

section \<open>Properties of the two endpoints before the dispatch\<close>

lemma normalizeLanguage_unknown:
  assumes "map_of LANGUAGE_ALIASES (toLowerCase language) = None"
    and "toLowerCase language \<notin> set [''constructor'', ''__proto__'']"
  shows "normalizeLanguage language = Null"
  using assms by (simp add: normalizeLanguage_def aliasLookup_def)

lemma normalizeLanguage_not_alias:
  assumes "map_of LANGUAGE_ALIASES (toLowerCase language) = None"
  shows "normalizeLanguage language = Null
         \<or> normalizeLanguage language = Inherited (toLowerCase language)"
  using assms by (simp add: normalizeLanguage_def aliasLookup_def)

lemma normalizeLanguage_cobol: "normalizeLanguage ''cobol'' = Null"
  by code_simp

lemma toLowerCase_cobol: "map_of LANGUAGE_ALIASES (toLowerCase ''cobol'') = None"
  by code_simp

text \<open>
  C10: a request whose \<open>code\<close> or \<open>language\<close> is the empty string is answered 400 with the
  'required' error by both endpoints, and the world is as it was: the clock was not
  read, no file was written and no command was run.
\<close>

theorem C10_empty_field_rejected:
  assumes "code = [] \<or> language = []"
  shows "checkSyntaxEndpoint e w code language =
           (\<lparr>status = 400,
             body = ClientError ''Code and language are required'' None
                      (Some ''Please provide both code and language parameters.'')\<rparr>, w)
         \<and> checkSyntaxEndpoint_exec e w code language =
           (\<lparr>status_exec = 400,
             body_exec = ClientError_exec ''Both code and language are required''\<rparr>, w)"
  using assms by (auto simp add: checkSyntaxEndpoint_def checkSyntaxEndpoint_exec_def)

theorem C10_empty_field_rejected_witness:
  "checkSyntaxEndpoint quietEnv world0 [] ''python'' =
     (\<lparr>status = 400,
       body = ClientError ''Code and language are required'' None
                (Some ''Please provide both code and language parameters.'')\<rparr>, world0)
   \<and> checkSyntaxEndpoint_exec quietEnv world0 [] ''python'' =
     (\<lparr>status_exec = 400,
       body_exec = ClientError_exec ''Both code and language are required''\<rparr>, world0)"
  using C10_empty_field_rejected[of "[]" "''python''" quietEnv world0] by simp

text \<open>
  C7, as stated, fails. \<open>cobol\<close> is not in the alias table, and the executing server
  answers 400 with a body that holds the error text and nothing else: the supported
  aliases are not listed.
\<close>

theorem C7_unsupported_without_alias_list_counterexample:
  "map_of LANGUAGE_ALIASES (toLowerCase ''cobol'') = None
   \<and> checkSyntaxEndpoint_exec quietEnv world0 ''DISPLAY 1.'' ''cobol'' =
       (\<lparr>status_exec = 400, body_exec = ClientError_exec ''Unsupported language''\<rparr>, world0)"
  by (simp add: toLowerCase_cobol checkSyntaxEndpoint_exec_def normalizeLanguage_cobol
      unsupportedLanguage_exec_def)

text \<open>
  C7, amended: for an identifier that is not in the alias table no file is written, no
  command is run and the clock is not read, in either server. When the request has a
  code within the size limit and the identifier, in lower case, is not the name of an
  inherited property of the table either, normalisation fails and both endpoints answer
  400 \<open>Unsupported language\<close>; the endpoint of server.js lists the supported aliases in the
  body, the endpoint of the executing server sends the error text alone.
\<close>

theorem C7_unsupported_language_rejected:
  assumes "map_of LANGUAGE_ALIASES (toLowerCase language) = None"
  shows "snd (checkSyntaxEndpoint e w code language) = w
         \<and> snd (checkSyntaxEndpoint_exec e w code language) = w
         \<and> (code \<noteq> [] \<and> language \<noteq> [] \<and> length code \<le> 1000000
              \<and> toLowerCase language \<notin> set [''constructor'', ''__proto__'']
            \<longrightarrow> normalizeLanguage language = Null
                \<and> fst (checkSyntaxEndpoint e w code language) =
                    \<lparr>status = 400,
                      body = ClientError ''Unsupported language'' (Some (map fst LANGUAGE_ALIASES))
                               (Some ''Please use one of the supported language identifiers.'')\<rparr>
                \<and> fst (checkSyntaxEndpoint_exec e w code language) =
                    \<lparr>status_exec = 400, body_exec = ClientError_exec ''Unsupported language''\<rparr>)"
proof -
  from normalizeLanguage_not_alias[OF assms]
  have a: "snd (checkSyntaxEndpoint e w code language) = w"
    by (auto simp add: checkSyntaxEndpoint_def)
  from normalizeLanguage_not_alias[OF assms]
  have b: "snd (checkSyntaxEndpoint_exec e w code language) = w"
    by (auto simp add: checkSyntaxEndpoint_exec_def Let_def)
  have c: "normalizeLanguage language = Null"
    if "toLowerCase language \<notin> set [''constructor'', ''__proto__'']"
    using normalizeLanguage_unknown[OF assms that] .
  show ?thesis
    using a b c
    by (auto simp add: checkSyntaxEndpoint_def checkSyntaxEndpoint_exec_def Let_def
        unsupportedLanguage_def unsupportedLanguage_exec_def)
qed

theorem C7_unsupported_language_rejected_witness:
  "snd (checkSyntaxEndpoint quietEnv world0 ''DISPLAY 1.'' ''cobol'') = world0
   \<and> snd (checkSyntaxEndpoint_exec quietEnv world0 ''DISPLAY 1.'' ''cobol'') = world0
   \<and> normalizeLanguage ''cobol'' = Null
   \<and> fst (checkSyntaxEndpoint quietEnv world0 ''DISPLAY 1.'' ''cobol'') =
       \<lparr>status = 400,
         body = ClientError ''Unsupported language'' (Some (map fst LANGUAGE_ALIASES))
                  (Some ''Please use one of the supported language identifiers.'')\<rparr>
   \<and> fst (checkSyntaxEndpoint_exec quietEnv world0 ''DISPLAY 1.'' ''cobol'') =
       \<lparr>status_exec = 400, body_exec = ClientError_exec ''Unsupported language''\<rparr>"
proof -
  have l: "toLowerCase ''cobol'' = ''cobol''" by code_simp
  show ?thesis
    using C7_unsupported_language_rejected[OF toLowerCase_cobol, of quietEnv world0 "''DISPLAY 1.''"]
    by (simp add: l)
qed

text \<open>
  The identifier \<open>constructor\<close> is not in the alias table either, but normalisation does
  not fail for it: the lookup finds the inherited property. The endpoint of server.js
  then answers 500, the executing server 400.
\<close>

lemma inherited_name_not_rejected_as_unsupported:
  "map_of LANGUAGE_ALIASES (toLowerCase ''constructor'') = None
   \<and> normalizeLanguage ''constructor'' = Inherited ''constructor''
   \<and> status (fst (checkSyntaxEndpoint quietEnv world0 ''x = 1'' ''constructor'')) = 500
   \<and> fst (checkSyntaxEndpoint_exec quietEnv world0 ''x = 1'' ''constructor'') =
       \<lparr>status_exec = 400, body_exec = ClientError_exec ''Unsupported language''\<rparr>"
proof -
  have a: "map_of LANGUAGE_ALIASES (toLowerCase ''constructor'') = None" by code_simp
  have b: "normalizeLanguage ''constructor'' = Inherited ''constructor''" by code_simp
  show ?thesis
    by (simp add: a b checkSyntaxEndpoint_def checkSyntaxEndpoint_exec_def
        unsupportedLanguage_exec_def)
qed

section \<open>Size limit and temp files on the Java path\<close>

lemma normalizeLanguage_java: "normalizeLanguage ''java'' = Str ''java''"
  by code_simp






lemma findPublicClass_fragment: "findPublicClass ''int x = ;'' = None"
  by code_simp

lemma javacFails_fields:
  "tempDir javacFails = ''/app/temp''"
  "date_now javacFails n = 1700 + n"
  "write_fails javacFails w p = None"
  "decode_uri javacFails c = Some c"
  "run_cmd javacFails w cmd t =
     ExitFail ''Command failed: javac''
       ''Check_1700.java:1: error: class, interface, or enum expected'' False"
  by (simp_all add: javacFails_def quietEnv_def)

text \<open>
  C8 fails on the error path of the Java checker of the executing server. \<open>javac\<close> rejects
  the fragment; the checker returns from its \<open>catch\<close>, and when the request completes the
  temp file it wrote is still there, with no cleanup of it in the trace. The Java checker
  of server.js removes its temp file on the same path.
\<close>

theorem C8_java_error_path_leaves_temp_file:
  "snd (checkJavaSyntax_exec javacFails world0 ''int x = ;'') =
     \<lparr>files = {''/app/temp/Check_1700.java''},
      trace = [Wrote ''/app/temp/Check_1700.java'',
               Ran (dockerRun javacFails ''openjdk:11''
                      (''javac '' @ inCode ''/app/temp/Check_1700.java''))],
      ticks = 1\<rparr>
   \<and> snd (checkSyntaxEndpoint_exec javacFails world0 ''int x = ;'' ''java'')
       = snd (checkJavaSyntax_exec javacFails world0 ''int x = ;'')
   \<and> valid (fst (checkJavaSyntax_exec javacFails world0 ''int x = ;'')) = False
   \<and> files (snd (checkJavaSyntax javacFails world0 ''int x = ;'')) = {}"
proof -
  have a: "checkJavaSyntax_exec javacFails world0 ''int x = ;'' =
     ((failResult ''Command failed: javac'')\<lparr>details := Some (DetailList [])\<rparr>,
      \<lparr>files = {''/app/temp/Check_1700.java''},
      trace = [Wrote ''/app/temp/Check_1700.java'',
               Ran (dockerRun javacFails ''openjdk:11''
                      (''javac '' @ inCode ''/app/temp/Check_1700.java''))],
      ticks = 1\<rparr>)"
    by (simp add: checkJavaSyntax_exec_def javaClassName_def findPublicClass_fragment dateNow_def
        writeFile_def execAsync_def javacFails_fields world0_def pathJoin_def
        showNat_1700 Let_def del: findPublicClass.simps)
  have b: "snd (checkSyntaxEndpoint_exec javacFails world0 ''int x = ;'' ''java'')
       = snd (checkJavaSyntax_exec javacFails world0 ''int x = ;'')"
    by (simp add: checkSyntaxEndpoint_exec_def normalizeLanguage_java checkAndExecute_def
        javacFails_fields a failResult_def emptyResult_def)
  have c: "files (snd (checkJavaSyntax javacFails world0 ''int x = ;'')) = {}"
    by (simp add: checkJavaSyntax_def dateNow_def writeFile_def execAsync_def javacFails_fields
        world0_def cleanupTempFile_def Let_def)
  show ?thesis
    using b c by (simp add: a failResult_def emptyResult_def)
qed

section \<open>Execution results\<close>

lemma normalizeLanguage_javascript: "normalizeLanguage ''javascript'' = Str ''javascript''"
  by code_simp

lemma warnsOnStderr_fields:
  "tempDir warnsOnStderr = ''/app/temp''"
  "date_now warnsOnStderr n = 1700 + n"
  "write_fails warnsOnStderr w p = None"
  "decode_uri warnsOnStderr c = Some c"
  "babel_parse warnsOnStderr c st = Parsed"
  "run_cmd warnsOnStderr w cmd t = Exit0 ''done'' stderrWarning"
  by (simp_all add: warnsOnStderr_def quietEnv_def)

lemma executeJavaScript_exit0:
  assumes "\<forall>w p. write_fails e w p = None"
    and "\<forall>w' t. run_cmd e w' (nodeCommand (tempFileNamed e ''js_'' (date_now e (ticks w)) ''.js'')) t
           = Exit0 out err"
  shows "fst (executeJavaScript e w code) =
           (if err \<noteq> [] then \<lparr>success = False, xoutput = None, xerror = Some err\<rparr>
            else \<lparr>success = True,
                  xoutput = Some (orElse out ''Code executed successfully with no output''),
                  xerror = None\<rparr>)"
  using assms
  by (simp add: executeJavaScript_def dateNow_def writeFile_def execAsync_def Let_def)

lemma executePython_exit0:
  assumes "\<forall>w p. write_fails e w p = None"
    and "\<forall>w' t. run_cmd e w'
            (pythonRunCommand e (tempFileNamed e ''script_'' (date_now e (ticks w)) ''.py'')) t
           = Exit0 out err"
  shows "fst (executePython e w code) = \<lparr>success = True, xoutput = Some out, xerror = orNull err\<rparr>"
  using assms
  by (simp add: executePython_def dateNow_def writeFile_def executeWithTimeout_def Let_def)

lemma executeC_exit0:
  assumes "\<forall>w p. write_fails e w p = None"
    and "\<forall>w' t. run_cmd e w'
            (cCompileCommand e (tempFileNamed e ''program_'' (date_now e (ticks w)) ''.c'')
               (tempFileNamed e ''program_'' (date_now e (Suc (ticks w))) [])) t
           = Exit0 cout cerr"
    and "\<forall>w' t. run_cmd e w'
            (cRunCommand e (tempFileNamed e ''program_'' (date_now e (Suc (ticks w))) [])) t
           = Exit0 out err"
  shows "fst (executeC e w code) = \<lparr>success = (err = []), xoutput = Some out, xerror = orNull err\<rparr>"
  using assms
  by (simp add: executeC_def dateNow_def writeFile_def executeWithTimeout_def Let_def)

lemma executeJava_exit0:
  assumes "\<forall>w p. write_fails e w p = None"
    and "className = fst (javaClassName e w ''Solution_'' code)"
    and "\<forall>w' t. run_cmd e w'
            (javaCompileCommand e (pathJoin (tempDir e) (className @ ''.java''))) t
           = Exit0 cout cerr"
    and "\<forall>w' t. run_cmd e w' (javaRunCommand e className) t = Exit0 out err"
  shows "fst (executeJava e w code) = \<lparr>success = True, xoutput = Some out, xerror = orNull err\<rparr>"
  using assms
  by (simp add: executeJava_def writeFile_def executeWithTimeout_def Let_def split_beta)

lemma executeCPP_exit0:
  assumes "\<forall>w p. write_fails e w p = None"
    and "imageTag = ''cpp_program_'' @ showNat (date_now e (ticks w))"
    and "\<forall>w' t. run_cmd e w'
            (cppBuildCommand e imageTag (tempFileNamed e ''Dockerfile_'' (date_now e (ticks w)) [])) t
           = Exit0 bout berr"
    and "\<forall>w' t. run_cmd e w' (cppRunCommand imageTag) t = Exit0 out err"
  shows "fst (executeCPP e w code) =
           (if berr \<noteq> [] then
              \<lparr>success = False, xoutput = None,
               xerror = Some (orElse (fst (buildErrorLines (split_nl berr) [] [])) ''Compilation failed'')\<rparr>
            else \<lparr>success = True, xoutput = Some out, xerror = orNull err\<rparr>)"
  using assms
  by (simp add: executeCPP_def dateNow_def writeFile_def executeWithTimeout_def Let_def split_beta)

text \<open>
  C4, as stated, fails. Node exits with status 0 and writes a warning to stderr; the
  executor reports \<open>success = False\<close> with the warning as the error, and so does the
  response.
\<close>

theorem C4_stderr_of_successful_run_counterexample:
  "(\<forall>w cmd t. run_cmd warnsOnStderr w cmd t = Exit0 ''done'' stderrWarning)
   \<and> stderrWarning \<noteq> []
   \<and> fst (executeJavaScript warnsOnStderr world0 ''process.emitWarning(1)'') =
       \<lparr>success = False, xoutput = None, xerror = Some stderrWarning\<rparr>
   \<and> fst (checkSyntaxEndpoint_exec warnsOnStderr world0 ''process.emitWarning(1)'' ''javascript'') =
       \<lparr>status_exec = 200,
         body_exec = RunBody
           \<lparr>rb_valid = True, rb_message = Some ''Syntax is valid'', rb_error = None,
            rb_details = None, rb_requested = ''javascript'', rb_normalized = ''javascript'',
            rb_execution = Some \<lparr>success = False, xoutput = None,
                                 xerror = Some stderrWarning\<rparr>\<rparr>\<rparr>"
proof -
  have a: "fst (executeJavaScript warnsOnStderr world0 ''process.emitWarning(1)'') =
       \<lparr>success = False, xoutput = None, xerror = Some stderrWarning\<rparr>"
    using executeJavaScript_exit0[of warnsOnStderr world0 "''done''" stderrWarning]
    by (simp add: warnsOnStderr_fields stderrWarning_def)
  have b: "checkJavaScriptSyntax warnsOnStderr ''process.emitWarning(1)'' = validResult"
    by (simp add: checkJavaScriptSyntax_def warnsOnStderr_fields)
  show ?thesis
    using a
    by (simp add: warnsOnStderr_fields checkSyntaxEndpoint_exec_def normalizeLanguage_javascript
        checkAndExecute_def b validResult_def emptyResult_def executionReport_def split_beta)
       (simp add: stderrWarning_def)
qed

text \<open>
  C4, amended: when every write succeeds and the processes of an execution exit with
  status 0, what is reported is this. A JavaScript run and a C run are reported as
  succeeded only when the run wrote nothing to stderr; with a non-empty stderr they are
  reported as failed, and that stderr is the error. A Python run and a Java run are
  reported as succeeded whatever the run wrote to stderr; so is a C++ run, unless the
  build of its image wrote to stderr, which is reported as a failed compilation. The
  response keeps the output of a succeeded execution and sets its error to \<open>null\<close>: the
  stderr of a run reported as succeeded is not in the response.
\<close>

theorem C4_reported_success_of_zero_exit_runs:
  assumes "\<forall>w p. write_fails e w p = None"
  shows "((\<forall>w' t. run_cmd e w'
              (nodeCommand (tempFileNamed e ''js_'' (date_now e (ticks w)) ''.js'')) t = Exit0 out err)
          \<longrightarrow> fst (executeJavaScript e w code) =
               (if err \<noteq> [] then \<lparr>success = False, xoutput = None, xerror = Some err\<rparr>
                else \<lparr>success = True,
                      xoutput = Some (orElse out ''Code executed successfully with no output''),
                      xerror = None\<rparr>))
       \<and> ((\<forall>w' t. run_cmd e w'
              (cCompileCommand e (tempFileNamed e ''program_'' (date_now e (ticks w)) ''.c'')
                 (tempFileNamed e ''program_'' (date_now e (Suc (ticks w))) [])) t = Exit0 cout cerr)
           \<and> (\<forall>w' t. run_cmd e w'
              (cRunCommand e (tempFileNamed e ''program_'' (date_now e (Suc (ticks w))) [])) t
                = Exit0 out err)
          \<longrightarrow> fst (executeC e w code) =
               \<lparr>success = (err = []), xoutput = Some out, xerror = orNull err\<rparr>)
       \<and> ((\<forall>w' t. run_cmd e w'
              (pythonRunCommand e (tempFileNamed e ''script_'' (date_now e (ticks w)) ''.py'')) t
                = Exit0 out err)
          \<longrightarrow> fst (executePython e w code) =
               \<lparr>success = True, xoutput = Some out, xerror = orNull err\<rparr>)
       \<and> ((\<forall>w' t. run_cmd e w'
              (javaCompileCommand e
                 (pathJoin (tempDir e) (fst (javaClassName e w ''Solution_'' code) @ ''.java''))) t
                = Exit0 cout cerr)
           \<and> (\<forall>w' t. run_cmd e w'
              (javaRunCommand e (fst (javaClassName e w ''Solution_'' code))) t = Exit0 out err)
          \<longrightarrow> fst (executeJava e w code) =
               \<lparr>success = True, xoutput = Some out, xerror = orNull err\<rparr>)
       \<and> ((\<forall>w' t. run_cmd e w'
              (cppBuildCommand e (''cpp_program_'' @ showNat (date_now e (ticks w)))
                 (tempFileNamed e ''Dockerfile_'' (date_now e (ticks w)) [])) t = Exit0 cout cerr)
           \<and> (\<forall>w' t. run_cmd e w'
              (cppRunCommand (''cpp_program_'' @ showNat (date_now e (ticks w)))) t = Exit0 out err)
          \<longrightarrow> fst (executeCPP e w code) =
               (if cerr \<noteq> [] then
                  \<lparr>success = False, xoutput = None,
                   xerror = Some (orElse (fst (buildErrorLines (split_nl cerr) [] []))
                                    ''Compilation failed'')\<rparr>
                else \<lparr>success = True, xoutput = Some out, xerror = orNull err\<rparr>))
       \<and> executionReport \<lparr>success = True, xoutput = Some out, xerror = orNull err\<rparr>
           = \<lparr>success = True, xoutput = Some out, xerror = None\<rparr>
       \<and> executionReport \<lparr>success = False, xoutput = None, xerror = Some err\<rparr>
           = \<lparr>success = False, xoutput = None, xerror = Some err\<rparr>"
proof -
  note w = assms
  have js: "(\<forall>w' t. run_cmd e w'
              (nodeCommand (tempFileNamed e ''js_'' (date_now e (ticks w)) ''.js'')) t = Exit0 out err)
          \<longrightarrow> fst (executeJavaScript e w code) =
               (if err \<noteq> [] then \<lparr>success = False, xoutput = None, xerror = Some err\<rparr>
                else \<lparr>success = True,
                      xoutput = Some (orElse out ''Code executed successfully with no output''),
                      xerror = None\<rparr>)"
    using executeJavaScript_exit0[OF w] by blast
  have c: "(\<forall>w' t. run_cmd e w'
              (cCompileCommand e (tempFileNamed e ''program_'' (date_now e (ticks w)) ''.c'')
                 (tempFileNamed e ''program_'' (date_now e (Suc (ticks w))) [])) t = Exit0 cout cerr)
           \<and> (\<forall>w' t. run_cmd e w'
              (cRunCommand e (tempFileNamed e ''program_'' (date_now e (Suc (ticks w))) [])) t
                = Exit0 out err)
          \<longrightarrow> fst (executeC e w code) =
               \<lparr>success = (err = []), xoutput = Some out, xerror = orNull err\<rparr>"
    using executeC_exit0[OF w] by blast
  have py: "(\<forall>w' t. run_cmd e w'
              (pythonRunCommand e (tempFileNamed e ''script_'' (date_now e (ticks w)) ''.py'')) t
                = Exit0 out err)
          \<longrightarrow> fst (executePython e w code) =
               \<lparr>success = True, xoutput = Some out, xerror = orNull err\<rparr>"
    using executePython_exit0[OF w] by blast
  have java: "(\<forall>w' t. run_cmd e w'
              (javaCompileCommand e
                 (pathJoin (tempDir e) (fst (javaClassName e w ''Solution_'' code) @ ''.java''))) t
                = Exit0 cout cerr)
           \<and> (\<forall>w' t. run_cmd e w'
              (javaRunCommand e (fst (javaClassName e w ''Solution_'' code))) t = Exit0 out err)
          \<longrightarrow> fst (executeJava e w code) =
               \<lparr>success = True, xoutput = Some out, xerror = orNull err\<rparr>"
    using executeJava_exit0[OF w refl] by blast
  have cpp: "(\<forall>w' t. run_cmd e w'
              (cppBuildCommand e (''cpp_program_'' @ showNat (date_now e (ticks w)))
                 (tempFileNamed e ''Dockerfile_'' (date_now e (ticks w)) [])) t = Exit0 cout cerr)
           \<and> (\<forall>w' t. run_cmd e w'
              (cppRunCommand (''cpp_program_'' @ showNat (date_now e (ticks w)))) t = Exit0 out err)
          \<longrightarrow> fst (executeCPP e w code) =
               (if cerr \<noteq> [] then
                  \<lparr>success = False, xoutput = None,
                   xerror = Some (orElse (fst (buildErrorLines (split_nl cerr) [] []))
                                    ''Compilation failed'')\<rparr>
                else \<lparr>success = True, xoutput = Some out, xerror = orNull err\<rparr>)"
    using executeCPP_exit0[OF w refl] by blast
  have r: "executionReport \<lparr>success = True, xoutput = Some out, xerror = orNull err\<rparr>
           = \<lparr>success = True, xoutput = Some out, xerror = None\<rparr>
       \<and> executionReport \<lparr>success = False, xoutput = None, xerror = Some err\<rparr>
           = \<lparr>success = False, xoutput = None, xerror = Some err\<rparr>"
    by (simp add: executionReport_def)
  from js c py java cpp r show ?thesis by blast
qed

lemma buildErrorLines_warning:
  "fst (buildErrorLines (split_nl stderrWarning) [] []) = []"
  by code_simp

lemma stderrWarning_not_empty: "stderrWarning \<noteq> []"
  by (simp add: stderrWarning_def)

theorem C4_reported_success_of_zero_exit_runs_witness:
  "fst (executeJavaScript warnsOnStderr world0 ''x'') =
     \<lparr>success = False, xoutput = None, xerror = Some stderrWarning\<rparr>
   \<and> fst (executeC warnsOnStderr world0 ''x'') =
     \<lparr>success = False, xoutput = Some ''done'', xerror = Some stderrWarning\<rparr>
   \<and> fst (executePython warnsOnStderr world0 ''x'') =
     \<lparr>success = True, xoutput = Some ''done'', xerror = Some stderrWarning\<rparr>
   \<and> fst (executeJava warnsOnStderr world0 ''x'') =
     \<lparr>success = True, xoutput = Some ''done'', xerror = Some stderrWarning\<rparr>
   \<and> fst (executeCPP warnsOnStderr world0 ''x'') =
     \<lparr>success = False, xoutput = None, xerror = Some ''Compilation failed''\<rparr>
   \<and> executionReport
       \<lparr>success = True, xoutput = Some ''done'', xerror = Some stderrWarning\<rparr>
     = \<lparr>success = True, xoutput = Some ''done'', xerror = None\<rparr>"
proof -
  have w: "\<forall>w p. write_fails warnsOnStderr w p = None"
    by (simp add: warnsOnStderr_fields)
  show ?thesis
    using C4_reported_success_of_zero_exit_runs[OF w, of world0 "''done''"
        stderrWarning "''x''" "''done''" stderrWarning]
    by (simp add: warnsOnStderr_fields orNull_def orElse_def buildErrorLines_warning
        stderrWarning_not_empty)
qed

section \<open>The synthesized class name\<close>

lemma digitVal_digitChar: "d < 10 \<Longrightarrow> digitVal (digitChar d) = d"
proof -
  assume "d < 10"
  then have "d \<in> {0, 1, 2, 3, 4, 5, 6, 7, 8, 9}" by auto
  then show ?thesis
    by (auto simp add: digitVal_def digitChar_def)
qed

lemma foldl_digits_showNat:
  "foldl (\<lambda>a c. 10 * a + digitVal c) 0 (showNat n) = n"
proof (induction n rule: showNat.induct)
  case (1 n)
  show ?case
  proof (cases "n < 10")
    case True
    then show ?thesis
      by (subst showNat.simps) (simp add: digitVal_digitChar)
  next
    case False
    with 1 have "foldl (\<lambda>a c. 10 * a + digitVal c) 0 (showNat (n div 10)) = n div 10" by simp
    with False show ?thesis
      by (subst showNat.simps) (simp add: digitVal_digitChar)
  qed
qed

lemma parseInt_showNat: "parseInt (showNat n) = int n"
  by (simp add: parseInt_def foldl_digits_showNat)

lemma showNat_inject: "showNat m = showNat n \<longleftrightarrow> m = n"
proof
  assume "showNat m = showNat n"
  then have "parseInt (showNat m) = parseInt (showNat n)" by simp
  then show "m = n" by (simp add: parseInt_showNat)
qed simp

section \<open>The parts of the wrapped text\<close>

lemma wrapCodeSnippet_parts:
  "wrapCodeSnippet now code language
     = wrapPrefix now code language @ wrapBody code language @ wrapSuffix code language"
  by (simp add: wrapCodeSnippet_def wrapPrefix_def wrapBody_def wrapSuffix_def Let_def)

lemma cpp_fragment_facts:
  "hasWrapper ''int x = ;''"
  "normalizeLanguage ''cpp'' = Str ''cpp''"
  "toLowerCase ''cpp'' = ''cpp''"
  "length (wrapCodeSnippet 0 ''int x = ;'' ''cpp'') = 499"
  "\<not> str_includes errorAtLine27 ''standard''"
  "wrapperLines ''cpp'' = 24"
  "injectedLines 0 ''int x = ;'' ''cpp'' = 26"
  "split_nl (wrapCodeSnippet 0 ''int x = ;'' ''cpp'') ! 26 = ''    int x = ;''"
  by code_simp+

lemma cppReport_errorAt27:
  "cppReport (\<lambda>l. l) getSuggestionForError
     (False, Some \<lparr>xe_message = ''Command failed'', xe_stderr = errorAtLine27\<rparr>, Some ''C++20'')
   = (emptyResult False)
       \<lparr>error := Some ''expected primary-expression before ; token'',
        errors := Some [\<lparr>line = 27, column = 13, etype = ''error'',
                         emessage = ''expected primary-expression before ; token'',
                         suggestion = Some ''Check for missing semicolons, parentheses, or braces.''\<rparr>],
        standard := Some ''C++20'', help_text := Some cppHelp\<rparr>"
  by code_simp

lemma cppErrorAt27_fields:
  "tempDir cppErrorAt27 = ''/app/temp''"
  "date_now cppErrorAt27 n = 1700 + n"
  "write_fails cppErrorAt27 w p = None"
  "run_cmd cppErrorAt27 w cmd t = ExitFail ''Command failed'' errorAtLine27 False"
  by (simp_all add: cppErrorAt27_def quietEnv_def)

lemma checkCPPSyntax_errorAt27:
  assumes "length code \<le> 1000000"
  shows "fst (checkCPPSyntax cppErrorAt27 w code) =
     (emptyResult False)
       \<lparr>error := Some ''expected primary-expression before ; token'',
        errors := Some [\<lparr>line = 27, column = 13, etype = ''error'',
                         emessage = ''expected primary-expression before ; token'',
                         suggestion = Some ''Check for missing semicolons, parentheses, or braces.''\<rparr>],
        standard := Some ''C++20'', help_text := Some cppHelp\<rparr>"
  using assms
  by (simp add: checkCPPSyntax_def dateNow_def writeFile_def cppErrorAt27_fields standards_def
      execAsync_def cpp_fragment_facts cppReport_errorAt27 Let_def split_beta)

lemma endpoint_cpp:
  "body (fst (checkSyntaxEndpoint cppErrorAt27 world0 ''int x = ;'' ''cpp'')) =
       SyntaxBody
         ((emptyResult False)
            \<lparr>error := Some ''expected primary-expression before ; token'',
             errors := Some [\<lparr>line = 3, column = 13, etype = ''error'',
                              emessage = ''expected primary-expression before ; token'',
                              suggestion = Some ''Check for missing semicolons, parentheses, or braces.''\<rparr>],
             standard := Some ''C++20'', help_text := Some cppHelp\<rparr>)
         ''cpp'' ''cpp''"
proof -
  have l: "length (wrapCodeSnippet 0 ''int x = ;'' ''cpp'') \<le> 1000000"
    by (simp add: cpp_fragment_facts)
  show ?thesis
    by (simp add: checkSyntaxEndpoint_def cpp_fragment_facts wrapCodeSnippetIO_def
        checkCPPSyntax_errorAt27[OF l] split_beta adjustErrorLineNumbers_def adjustLine_def
        emptyResult_def)
qed


lemma python_fragment_facts:
  "hasWrapper ''def f(:''"
  "normalizeLanguage ''python'' = Str ''python''"
  "toLowerCase ''python'' = ''python''"
  "length (wrapCodeSnippet 0 ''def f(:'' ''python'') = 86"
  "wrapperLines ''python'' = 5"
  "injectedLines 0 ''def f(:'' ''python'' = 5"
  "split_nl (wrapCodeSnippet 0 ''def f(:'' ''python'') ! 5 = ''def f(:''"
  "pythonDetails errorAtLine6 =
     [\<lparr>dline = 6, dmessage = ''File '' @ quoted ''/app/temp/check_1700.py'' @ '', line 6''\<rparr>]"
  by code_simp+

lemma pythonErrorAt6_fields:
  "tempDir pythonErrorAt6 = ''/app/temp''"
  "date_now pythonErrorAt6 n = 1700 + n"
  "write_fails pythonErrorAt6 w p = None"
  "run_cmd pythonErrorAt6 w cmd t = ExitFail ''Command failed'' errorAtLine6 False"
  by (simp_all add: pythonErrorAt6_def quietEnv_def)

lemma endpoint_python:
  "body (fst (checkSyntaxEndpoint pythonErrorAt6 world0 ''def f(:'' ''python'')) =
       SyntaxBody
         ((emptyResult False)
            \<lparr>error := Some errorAtLine6,
             details := Some (DetailList
               [\<lparr>dline = 6,
                 dmessage = ''File '' @ quoted ''/app/temp/check_1700.py'' @ '', line 6''\<rparr>])\<rparr>)
         ''python'' ''python''"
proof -
  have l: "length (wrapCodeSnippet 0 ''def f(:'' ''python'') \<le> 1000000"
    by (simp add: python_fragment_facts)
  show ?thesis
    using l
    by (simp add: checkSyntaxEndpoint_def python_fragment_facts wrapCodeSnippetIO_def
        checkPythonSyntax_def dateNow_def writeFile_def execAsync_def pythonErrorAt6_fields
        split_beta adjustErrorLineNumbers_def emptyResult_def Let_def)
qed

text \<open>
  C1 fails on the code. For the C++ fragment \<open>int x = ;\<close> the wrapper puts 26 lines before
  the user's code, so its first line is line 27 of the file the compiler reads; the
  table \<open>wrapperLines\<close> says 24, and an error the compiler reports on line 27 is reported
  to the caller on line 3, not on line 1. For the Python fragment \<open>def f(:\<close> the wrapper
  puts 5 lines before the code and the table says 5, but the checker's diagnostics are
  in \<open>details\<close>, which \<open>adjustErrorLineNumbers\<close> does not read: an error on line 6 of the
  file, the user's line 1, is reported on line 6.
\<close>

theorem C1_line_numbers_after_wrapping:
  "injectedLines 0 ''int x = ;'' ''cpp'' = 26
   \<and> split_nl (wrapCodeSnippet 0 ''int x = ;'' ''cpp'') ! 26 = ''    int x = ;''
   \<and> wrapperLines ''cpp'' = 24
   \<and> body (fst (checkSyntaxEndpoint cppErrorAt27 world0 ''int x = ;'' ''cpp'')) =
       SyntaxBody
         ((emptyResult False)
            \<lparr>error := Some ''expected primary-expression before ; token'',
             errors := Some [\<lparr>line = 3, column = 13, etype = ''error'',
                              emessage = ''expected primary-expression before ; token'',
                              suggestion = Some ''Check for missing semicolons, parentheses, or braces.''\<rparr>],
             standard := Some ''C++20'', help_text := Some cppHelp\<rparr>)
         ''cpp'' ''cpp''
   \<and> injectedLines 0 ''def f(:'' ''python'' = 5
   \<and> split_nl (wrapCodeSnippet 0 ''def f(:'' ''python'') ! 5 = ''def f(:''
   \<and> wrapperLines ''python'' = 5
   \<and> body (fst (checkSyntaxEndpoint pythonErrorAt6 world0 ''def f(:'' ''python'')) =
       SyntaxBody
         ((emptyResult False)
            \<lparr>error := Some errorAtLine6,
             details := Some (DetailList
               [\<lparr>dline = 6,
                 dmessage = ''File '' @ quoted ''/app/temp/check_1700.py'' @ '', line 6''\<rparr>])\<rparr>)
         ''python'' ''python''"
  using endpoint_cpp endpoint_python
  by (simp only: cpp_fragment_facts python_fragment_facts simp_thms)


lemma showNat_no_newline: "CHR 0x0A \<notin> set (showNat n)"
proof (induction n rule: showNat.induct)
  case (1 n)
  have d: "digitChar k \<noteq> CHR 0x0A" for k
  proof -
    define d where "d = k mod 10"
    then have "d < 10" by simp
    then have "d \<in> {0, 1, 2, 3, 4, 5, 6, 7, 8, 9}" by auto
    then show ?thesis unfolding digitChar_def d_def[symmetric] by auto
  qed
  show ?case
  proof (cases "n < 10")
    case True
    then show ?thesis by (subst showNat.simps) (simp add: d d[symmetric])
  next
    case False
    with 1 show ?thesis by (subst showNat.simps) (simp add: d d[symmetric])
  qed
qed

lemma newlines_showNat: "filter (\<lambda>c. c = CHR 0x0A) (showNat n) = []"
  using showNat_no_newline[of n] by (auto simp add: filter_empty_conv)

lemma lower_names:
  "toLowerCase ''cpp'' = ''cpp''" "toLowerCase ''java'' = ''java''"
  "toLowerCase ''python'' = ''python''" "toLowerCase ''c'' = ''c''"
  by code_simp+

lemma newline_counts:
  "length (filter (\<lambda>c. c = CHR 0x0A) cppIncludes) = 24"
  "length (filter (\<lambda>c. c = CHR 0x0A) javaImports) = 11"
  "length (filter (\<lambda>c. c = CHR 0x0A) pythonImports) = 4"
  by code_simp+


text \<open>The lines the wrapper puts before the code, against the table, for every code
  that the endpoint takes as wrapped.\<close>

lemma injectedLines_table:
  assumes "hasWrapper code"
  shows "injectedLines now code ''cpp''
           = (if str_includes code ''template'' \<or> str_includes code ''concept'' then 25 else 26)"
    and "injectedLines now code ''java'' = 14"
    and "injectedLines now code ''python'' = 5"
    and "injectedLines now code ''c'' = 5"
    and "wrapperLines ''cpp'' = 24" and "wrapperLines ''java'' = 13"
    and "wrapperLines ''python'' = 5" and "wrapperLines ''c'' = 5"
  using assms
  by (simp_all add: injectedLines_def wrapPrefix_def lower_names hasWrapper_def
      newline_counts nl_def solutionClassName_def newlines_showNat wrapperLines_def)

section \<open>Determinism of wrapping and the class name\<close>

text \<open>
  C5, as stated, fails. Two different fragments without a class, wrapped at the same
  reading of the clock, get the same class name.
\<close>

theorem C5_same_millisecond_same_class_name_counterexample:
  "''int a = 1;'' \<noteq> ''int b = 2;''
   \<and> synthesizesClass ''int a = 1;'' ''java'' \<and> synthesizesClass ''int b = 2;'' ''java''
   \<and> split_nl (wrapCodeSnippet 1700 ''int a = 1;'' ''java'') ! 12 = ''class Solution_1700 {''
   \<and> split_nl (wrapCodeSnippet 1700 ''int b = 2;'' ''java'') ! 12 = ''class Solution_1700 {''"
proof -
  have a: "synthesizesClass ''int a = 1;'' ''java''" by code_simp
  have b: "synthesizesClass ''int b = 2;'' ''java''" by code_simp
  have c: "split_nl (wrapCodeSnippet 1700 ''int a = 1;'' ''java'') ! 12 = ''class Solution_1700 {''"
    by code_simp
  have d: "split_nl (wrapCodeSnippet 1700 ''int b = 2;'' ''java'') ! 12 = ''class Solution_1700 {''"
    by code_simp
  from a b c d show ?thesis by simp
qed

text \<open>
  C5, amended: the name of the synthesized class is \<open>Solution_\<close> followed by the decimal
  digits of the clock reading taken when the fragment is wrapped, and nothing else of the
  request goes into it. Two requests get different names exactly when their readings
  differ.
\<close>

theorem C5_class_name_is_the_clock_reading:
  "(solutionClassName t1 = solutionClassName t2) = (t1 = t2)
   \<and> wrapCodeSnippet now code ''java'' =
       (if str_includes code ''class'' then javaImports @ nl @ replacePublicClass (unindent code)
        else javaImports @ nl @ ''class '' @ solutionClassName now @ '' {'' @ nl
           @ ''    public static void main(String[] args) {'' @ nl
           @ ''        '' @ unindent code @ nl @ ''    }'' @ nl @ ''}'')
   \<and> wrapCodeSnippetIO e w code ''java'' =
       (if str_includes code ''class'' then (wrapCodeSnippet 0 code ''java'', w)
        else (wrapCodeSnippet (date_now e (ticks w)) code ''java'', w\<lparr>ticks := Suc (ticks w)\<rparr>))"
  by (simp add: solutionClassName_def showNat_inject wrapCodeSnippet_def lower_names
      wrapCodeSnippetIO_def dateNow_def Let_def)







end
